theory Spec2Isabelle
  imports Complex_Main
begin

section \<open>Python strings and the tables of the interpreter\<close>

text \<open>
  A Python \<open>str\<close> is a sequence of Unicode code points, so a character is its code
  point and a string a list of them: \<open>len\<close> is \<open>length\<close>, and the Cyrillic
  literals of the sources are lists of code points above 127. ASCII literals are written
  through \<open>asc\<close>.
\<close>

type_synonym pychar = nat
type_synonym pystr = "pychar list"

definition asc :: "string \<Rightarrow> pystr" where
  "asc s = map of_char s"

text \<open>
  The result of \<open>float(s)\<close>: a finite value, an infinity or NaN (\<open>float('nan')\<close>
  and \<open>float('inf')\<close> are accepted by Python). A finite double is taken by its
  value; \<open>==\<close> on finite doubles is equality of values.
\<close>

datatype pyfloat = Fin rat | PInf | NInf | NaN

text \<open>
  What the sources take from the interpreter rather than define: the Unicode character
  database behind \<open>\d\<close>, \<open>int()\<close>, \<open>str.isdigit\<close>, \<open>\w\<close>,
  \<open>str.lower\<close> and \<open>re.IGNORECASE\<close>, and the parser of \<open>float()\<close>.
  They are parameters of the model, so every theorem below holds for any such tables.
  \<^item> \<open>decimal_value c\<close>: the value of \<open>c\<close> when it is a decimal digit (category Nd),
    which is what \<open>\d\<close> matches and \<open>int()\<close> converts;
  \<^item> \<open>isdigit_char c\<close>: \<open>c.isdigit()\<close>, true of decimal digits and also of digits
    such as superscripts that \<open>int()\<close> refuses;
  \<^item> \<open>isword_char c\<close>: \<open>\w\<close>;
  \<^item> \<open>lower_at s i\<close>: what \<open>s.lower()\<close> gives for the character at index \<open>i\<close>
    (the mapping may look at the context and may give several characters);
  \<^item> \<open>ignorecase_eq l c\<close>: the character \<open>c\<close> matches the pattern literal \<open>l\<close>
    under \<open>re.IGNORECASE\<close>;
  \<^item> \<open>float_of_str s\<close>: \<open>float(s)\<close>, \<open>None\<close> for ValueError;
  \<^item> \<open>int_max_str_digits\<close>: the interpreter's limit on the length of a string
    given to \<open>int()\<close> (4300 by default, 0 for no limit).
\<close>

record runtime =
  decimal_value :: "pychar \<Rightarrow> nat option"
  isdigit_char :: "pychar \<Rightarrow> bool"
  isword_char :: "pychar \<Rightarrow> bool"
  lower_at :: "pystr \<Rightarrow> nat \<Rightarrow> pystr"
  ignorecase_eq :: "pychar \<Rightarrow> pychar \<Rightarrow> bool"
  float_of_str :: "pystr \<Rightarrow> pyfloat option"
  int_max_str_digits :: nat

text \<open>\<open>str.isspace\<close> per character, which is also \<open>\s\<close> and what \<open>strip()\<close> removes.\<close>

definition py_isspace :: "pychar \<Rightarrow> bool" where
  "py_isspace c =
     ((9 \<le> c \<and> c \<le> 13) \<or> (28 \<le> c \<and> c \<le> 32) \<or> c = 133 \<or> c = 160 \<or> c = 5760 \<or>
      (8192 \<le> c \<and> c \<le> 8202) \<or> c = 8232 \<or> c = 8233 \<or> c = 8239 \<or> c = 8287 \<or>
      c = 12288)"

definition strip :: "pystr \<Rightarrow> pystr" where
  "strip s = rev (dropWhile py_isspace (rev (dropWhile py_isspace s)))"

definition is_decimal :: "runtime \<Rightarrow> pychar \<Rightarrow> bool" where
  "is_decimal rt c = (decimal_value rt c \<noteq> None)"

definition lower :: "runtime \<Rightarrow> pystr \<Rightarrow> pystr" where
  "lower rt s = concat (map (lower_at rt s) [0..<length s])"

text \<open>\<open>s.startswith(p)\<close> and \<open>sub in s\<close>.\<close>

fun startswith :: "pystr \<Rightarrow> pystr \<Rightarrow> bool" where
  "startswith s [] = True"
| "startswith [] (p # ps) = False"
| "startswith (c # cs) (p # ps) = (c = p \<and> startswith cs ps)"

fun contains :: "pystr \<Rightarrow> pystr \<Rightarrow> bool" where
  "contains sub [] = (sub = [])"
| "contains sub (c # cs) = (startswith (c # cs) sub \<or> contains sub cs)"

text \<open>All suffixes of a string, the candidate start positions of \<open>re.search\<close>.\<close>

fun suffixes_of :: "pystr \<Rightarrow> pystr list" where
  "suffixes_of [] = [[]]"
| "suffixes_of (c # cs) = (c # cs) # suffixes_of cs"

section \<open>Format Classifier (ecd_format_detector.py)\<close>

datatype ECDFormat = STANDARD | CUSTOMS | UNKNOWN

text \<open>
  The three regular expressions of \<open>detect_format\<close>, each as the test whether a match
  starts at the head of a string; \<open>re.search\<close> tries every start position.
  \<^item> \<open>LRN\s*:\s*\d{2}MK\<close>: a colon is not white space, so only the longest run of
    white space can be followed by it; the run before the digits may end anywhere.
  \<^item> the literal of line 111, then \<open>\s+\d\<close>: one or more white space, then a digit.
  \<^item> \<open>7\s+...\s+[\w\d]+/\d{4}\<close> under \<open>re.IGNORECASE\<close>: literals are compared
    through \<open>ignorecase_eq\<close>.
\<close>

definition digits_then :: "runtime \<Rightarrow> nat \<Rightarrow> pystr \<Rightarrow> pystr \<Rightarrow> bool" where
  "digits_then rt n lit s =
     (n \<le> length s \<and> list_all (is_decimal rt) (take n s) \<and> startswith (drop n s) lit)"

definition after_spaces :: "nat \<Rightarrow> (pystr \<Rightarrow> bool) \<Rightarrow> pystr \<Rightarrow> bool" where
  "after_spaces m P s =
     list_ex (\<lambda>k. P (drop k s)) [m..<Suc (length (takeWhile py_isspace s))]"

definition lrn_at :: "runtime \<Rightarrow> pystr \<Rightarrow> bool" where
  "lrn_at rt s =
     (startswith s (asc ''LRN'') \<and>
      (case dropWhile py_isspace (drop 3 s) of
         [] \<Rightarrow> False
       | c # r \<Rightarrow> c = 58 \<and> after_spaces 0 (digits_then rt 2 (asc ''MK'')) r))"

definition RDB :: pystr where
  "RDB = [1056, 1044, 1041]"

definition RBD :: pystr where
  "RBD = [1056, 1041, 1044]"

definition rdb_at :: "runtime \<Rightarrow> pystr \<Rightarrow> bool" where
  "rdb_at rt s =
     (startswith s RDB \<and> after_spaces 1 (digits_then rt 1 []) (drop 3 s))"

fun startswith_ci :: "runtime \<Rightarrow> pystr \<Rightarrow> pystr \<Rightarrow> bool" where
  "startswith_ci rt s [] = True"
| "startswith_ci rt [] (p # ps) = False"
| "startswith_ci rt (c # cs) (p # ps) = (ignorecase_eq rt p c \<and> startswith_ci rt cs ps)"

definition referenten_broj :: pystr where
  "referenten_broj =
     [1088, 1077, 1092, 1077, 1088, 1077, 1085, 1090, 1077, 1085, 32, 1073, 1088, 1086, 1112]"

definition ref_tail :: "runtime \<Rightarrow> pystr \<Rightarrow> bool" where
  "ref_tail rt s =
     (let run = takeWhile (\<lambda>c. isword_char rt c \<or> is_decimal rt c) s in
      list_ex (\<lambda>k. case drop k s of
                       [] \<Rightarrow> False
                     | c # r \<Rightarrow> ignorecase_eq rt 47 c \<and> digits_then rt 4 [] r)
              [1..<Suc (length run)])"

definition ref_at :: "runtime \<Rightarrow> pystr \<Rightarrow> bool" where
  "ref_at rt s =
     (case s of
        [] \<Rightarrow> False
      | c # r \<Rightarrow>
          ignorecase_eq rt 55 c \<and>
          after_spaces 1
            (\<lambda>u. startswith_ci rt u referenten_broj \<and>
                  after_spaces 1 (ref_tail rt) (drop (length referenten_broj) u)) r)"

definition re_search :: "(pystr \<Rightarrow> bool) \<Rightarrow> pystr \<Rightarrow> bool" where
  "re_search m s = list_ex m (suffixes_of s)"

text \<open>
  The eight tests of lines 71 to 117, in the order of the source: four for the customs
  layout (weights 2, 1, 2, 1) and four for the standard layout (weights 2, 2, 1, 1).
\<close>

record indicators =
  c_consignor :: bool
  c_rbd :: bool
  c_refnum :: bool
  c_oznaki :: bool
  s_ispracac :: bool
  s_lrn :: bool
  s_rdb :: bool
  s_tovlist :: bool

definition oznaki_i_broevi :: pystr where
  "oznaki_i_broevi =
     [1054, 1079, 1085, 1072, 1082, 1080, 32, 1080, 32, 1073, 1088, 1086, 1077, 1074, 1080,
      32, 45, 32, 1041, 1088, 1086, 1112, 32, 1085, 1072, 32, 1082, 1086, 1085, 1090, 1077,
      1112, 1085, 1077, 1088]"

definition ispracac_izvoznik :: pystr where
  "ispracac_izvoznik =
     [1048, 1089, 1087, 1088, 1072, 1116, 1072, 1095, 47, 1048, 1079, 1074, 1086, 1079,
      1085, 1080, 1082]"

definition ispracac_izvoznik_sp :: pystr where
  "ispracac_izvoznik_sp =
     [1048, 1089, 1087, 1088, 1072, 1116, 1072, 1095, 32, 47, 32, 1048, 1079, 1074, 1086,
      1079, 1085, 1080, 1082]"

definition tov_list :: pystr where
  "tov_list = [1090, 1086, 1074, 46, 1083, 1080, 1089, 1090]"

definition tovaren_list :: pystr where
  "tovaren_list = [1090, 1086, 1074, 1072, 1088, 1077, 1085, 32, 1083, 1080, 1089, 1090]"

definition indicators_of :: "runtime \<Rightarrow> pystr \<Rightarrow> indicators" where
  "indicators_of rt text =
     \<lparr> c_consignor = (contains (asc ''Consignor/Exporter'') text \<or>
                      contains (asc ''Consignor / Exporter'') text),
       c_rbd = (contains RBD text \<and> \<not> contains RDB text),
       c_refnum = re_search (ref_at rt) text,
       c_oznaki = contains oznaki_i_broevi text,
       s_ispracac = (contains ispracac_izvoznik text \<or> contains ispracac_izvoznik_sp text),
       s_lrn = re_search (lrn_at rt) text,
       s_rdb = re_search (rdb_at rt) text,
       s_tovlist = (contains tov_list (lower rt text) \<or>
                    contains tovaren_list (lower rt text)) \<rparr>"

definition customs_indicators :: "indicators \<Rightarrow> nat" where
  "customs_indicators ind =
     (if c_consignor ind then 2 else 0) + (if c_rbd ind then 1 else 0) +
     (if c_refnum ind then 2 else 0) + (if c_oznaki ind then 1 else 0)"

definition standard_indicators :: "indicators \<Rightarrow> nat" where
  "standard_indicators ind =
     (if s_ispracac ind then 2 else 0) + (if s_lrn ind then 2 else 0) +
     (if s_rdb ind then 1 else 0) + (if s_tovlist ind then 1 else 0)"

definition decide :: "indicators \<Rightarrow> ECDFormat" where
  "decide ind =
     (if customs_indicators ind > standard_indicators ind \<and> customs_indicators ind \<ge> 2
      then CUSTOMS
      else if standard_indicators ind > customs_indicators ind \<and> standard_indicators ind \<ge> 2
      then STANDARD
      else UNKNOWN)"

text \<open>
  \<open>detect_format\<close> on the text sample: an empty sample returns \<open>UNKNOWN\<close> before any
  test is made (line 64).
\<close>

definition detect_format :: "runtime \<Rightarrow> pystr \<Rightarrow> ECDFormat" where
  "detect_format rt text = (if text = [] then UNKNOWN else decide (indicators_of rt text))"

text \<open>
  Two outcomes of the eight tests, the second with every customs indicator of the first
  and possibly more, the standard indicators being the same; and the same with the two
  layouts exchanged.
\<close>

definition customs_added :: "indicators \<Rightarrow> indicators \<Rightarrow> bool" where
  "customs_added a b =
     (s_ispracac b = s_ispracac a \<and> s_lrn b = s_lrn a \<and> s_rdb b = s_rdb a \<and>
      s_tovlist b = s_tovlist a \<and>
      (c_consignor a \<longrightarrow> c_consignor b) \<and> (c_rbd a \<longrightarrow> c_rbd b) \<and>
      (c_refnum a \<longrightarrow> c_refnum b) \<and> (c_oznaki a \<longrightarrow> c_oznaki b))"

definition standard_added :: "indicators \<Rightarrow> indicators \<Rightarrow> bool" where
  "standard_added a b =
     (c_consignor b = c_consignor a \<and> c_rbd b = c_rbd a \<and> c_refnum b = c_refnum a \<and>
      c_oznaki b = c_oznaki a \<and>
      (s_ispracac a \<longrightarrow> s_ispracac b) \<and> (s_lrn a \<longrightarrow> s_lrn b) \<and>
      (s_rdb a \<longrightarrow> s_rdb b) \<and> (s_tovlist a \<longrightarrow> s_tovlist b))"

section \<open>Values of the output record\<close>

text \<open>
  \<open>self.data\<close> is a dict of dicts, lists, strings, numbers and \<open>None\<close>, written by
  \<open>json.dump\<close> and compared with what \<open>json.load\<close> reads. A dict is an association
  list in insertion order; \<open>d[k] = v\<close> replaces the value of a key that is present and
  appends a new key otherwise.
\<close>

datatype json =
    JNull
  | JBool bool
  | JInt int
  | JFloat pyfloat
  | JStr pystr
  | JList "json list"
  | JDict "(pystr \<times> json) list"

type_synonym pydict = "(pystr \<times> json) list"

datatype pyerror = ValueError | TypeError

fun dict_set :: "pystr \<Rightarrow> json \<Rightarrow> pydict \<Rightarrow> pydict" where
  "dict_set k v [] = [(k, v)]"
| "dict_set k v ((k', v') # d) = (if k' = k then (k, v) # d else (k', v') # dict_set k v d)"

definition dict_has :: "pystr \<Rightarrow> pydict \<Rightarrow> bool" where
  "dict_has k d = (map_of d k \<noteq> None)"

definition dict_keys :: "pydict \<Rightarrow> pystr list" where
  "dict_keys d = map fst d"

section \<open>Line primitives of the generic engine (extract_ecd_generic.py)\<close>

text \<open>
  The engine works on \<open>self.lines\<close>, the text split at newlines. A loop
  \<open>for i in range(a, min(len(self.lines), b))\<close> reads \<open>self.lines[i]\<close> inside the
  list only, so \<open>lines ! i\<close> is the element the source reads.
\<close>

definition window :: "pystr list \<Rightarrow> nat \<Rightarrow> nat \<Rightarrow> nat list" where
  "window lines a n = [a..<min (length lines) (a + n)]"

definition get_line_safe :: "pystr list \<Rightarrow> int \<Rightarrow> pystr" where
  "get_line_safe lines i =
     (if 0 \<le> i \<and> i < int (length lines) then strip (lines ! nat i) else [])"

definition markers :: "pystr list" where
  "markers = [[1072], [1073], [1074], [1075]]"

text \<open>
  \<open>find_next_nonempty_line\<close> is defined twice in the class; the second definition
  (line 533, with the \<open>backward\<close> flag and four markers) is the one in force. Its
  forward branch is called with a start index that is never negative, its backward
  branch with \<open>i - 1\<close> for a line index \<open>i\<close>.
\<close>

definition nonempty_line :: "pystr list \<Rightarrow> nat \<Rightarrow> bool" where
  "nonempty_line lines i = (strip (lines ! i) \<noteq> [] \<and> strip (lines ! i) \<notin> set markers)"

definition find_next_nonempty_line :: "pystr list \<Rightarrow> nat \<Rightarrow> nat \<Rightarrow> int \<times> pystr" where
  "find_next_nonempty_line lines start_index max_search =
     (case find (nonempty_line lines) (window lines start_index max_search) of
        Some i \<Rightarrow> (int i, strip (lines ! i))
      | None \<Rightarrow> (- 1, []))"

definition find_prev_nonempty_line :: "pystr list \<Rightarrow> int \<Rightarrow> int \<Rightarrow> int \<times> pystr" where
  "find_prev_nonempty_line lines start_index max_search =
     (case find (\<lambda>i. nonempty_line lines (nat i))
             (rev [max 0 (start_index - max_search) + 1..start_index]) of
        Some i \<Rightarrow> (i, strip (lines ! nat i))
      | None \<Rightarrow> (- 1, []))"

text \<open>
  Character tests and the anchored patterns. Every pattern below is matched against a
  stripped line, which has no final newline for \<open>$\<close> to skip, so \<open>^...$\<close> is a
  match of the whole line.
\<close>

definition upper_az :: "pychar \<Rightarrow> bool" where
  "upper_az c = (65 \<le> c \<and> c \<le> 90)"

definition py_isdigit :: "runtime \<Rightarrow> pystr \<Rightarrow> bool" where
  "py_isdigit rt s = (s \<noteq> [] \<and> list_all (isdigit_char rt) s)"

text \<open>
  \<open>int(s)\<close> for a string that passed \<open>isdigit()\<close>: such a string has no sign, no
  underscore and no white space, so \<open>int\<close> succeeds exactly when every character is a
  decimal digit and the string is within the interpreter's length limit.
\<close>

definition py_int :: "runtime \<Rightarrow> pystr \<Rightarrow> int option" where
  "py_int rt s =
     (if s = [] \<or> \<not> list_all (is_decimal rt) s \<or>
         (0 < int_max_str_digits rt \<and> int_max_str_digits rt < length s)
      then None
      else Some (int (foldl (\<lambda>a c. 10 * a + the (decimal_value rt c)) 0 s)))"

text \<open>\<open>^[A-Z]{2}$\<close>, \<open>^[A-Z]{2,3}$\<close>, \<open>^\d{n}$\<close> and \<open>^\d{4,7}$\<close>.\<close>

definition two_upper :: "pystr \<Rightarrow> bool" where
  "two_upper s = (length s = 2 \<and> list_all upper_az s)"

definition two_three_upper :: "pystr \<Rightarrow> bool" where
  "two_three_upper s = ((length s = 2 \<or> length s = 3) \<and> list_all upper_az s)"

definition n_digits :: "runtime \<Rightarrow> nat \<Rightarrow> pystr \<Rightarrow> bool" where
  "n_digits rt n s = (length s = n \<and> list_all (is_decimal rt) s)"

definition ref_number :: "runtime \<Rightarrow> pystr \<Rightarrow> bool" where
  "ref_number rt s = (4 \<le> length s \<and> length s \<le> 7 \<and> list_all (is_decimal rt) s)"

text \<open>\<open>^([A-Z]{2}\d{4}[A-Z]{2}(?:/[A-Z]{2}\d{4}[A-Z]{2})?)$\<close>; group 1 is the line.\<close>

definition vehicle_reg :: "runtime \<Rightarrow> pystr \<Rightarrow> bool" where
  "vehicle_reg rt s =
     (length s = 8 \<and> list_all upper_az (take 2 s) \<and>
      list_all (is_decimal rt) (take 4 (drop 2 s)) \<and> list_all upper_az (drop 6 s))"

definition vehicle_pattern :: "runtime \<Rightarrow> pystr \<Rightarrow> bool" where
  "vehicle_pattern rt s =
     (vehicle_reg rt s \<or>
      (length s = 17 \<and> vehicle_reg rt (take 8 s) \<and> s ! 8 = 47 \<and> vehicle_reg rt (drop 9 s)))"

text \<open>\<open>^([A-Z]{2}\d{13})$\<close> and \<open>^[A-Z]{2}\d+$\<close>.\<close>

definition tin_pattern :: "runtime \<Rightarrow> pystr \<Rightarrow> bool" where
  "tin_pattern rt s =
     (length s = 15 \<and> list_all upper_az (take 2 s) \<and> list_all (is_decimal rt) (drop 2 s))"

definition tin_like :: "runtime \<Rightarrow> pystr \<Rightarrow> bool" where
  "tin_like rt s =
     (3 \<le> length s \<and> list_all upper_az (take 2 s) \<and> list_all (is_decimal rt) (drop 2 s))"

section \<open>Section Locator (find\_data\_section)\<close>

text \<open>
  The declaration-type code: \<open>^(EX|IM)[A-Z]{2}$\<close> against the stripped line, or
  \<open>\b(EX|IM)[A-Z]{2}\b\<close> anywhere in the line. A word boundary stands between two
  positions of which exactly one holds a word character (the ends of the line hold
  none). The label: one of \<open>LRN :\<close>, \<open>LRN:\<close> and \<open>LRN\<close> with a space, in the line.
\<close>

definition decl_code :: "pystr \<Rightarrow> bool" where
  "decl_code s =
     (4 \<le> length s \<and> (take 2 s = asc ''EX'' \<or> take 2 s = asc ''IM'') \<and>
      list_all upper_az (take 2 (drop 2 s)))"

definition word_boundary :: "runtime \<Rightarrow> pychar option \<Rightarrow> pychar option \<Rightarrow> bool" where
  "word_boundary rt before after =
     ((case before of None \<Rightarrow> False | Some c \<Rightarrow> isword_char rt c) \<noteq>
      (case after of None \<Rightarrow> False | Some c \<Rightarrow> isword_char rt c))"

fun decl_code_search :: "runtime \<Rightarrow> pychar option \<Rightarrow> pystr \<Rightarrow> bool" where
  "decl_code_search rt before [] = False"
| "decl_code_search rt before (c # cs) =
     ((word_boundary rt before (Some c) \<and> decl_code (c # cs) \<and>
       word_boundary rt (Some (cs ! 2)) (if 3 < length cs then Some (cs ! 3) else None)) \<or>
      decl_code_search rt (Some c) cs)"

definition decl_code_line :: "runtime \<Rightarrow> pystr \<Rightarrow> bool" where
  "decl_code_line rt line =
     ((length (strip line) = 4 \<and> decl_code (strip line)) \<or> decl_code_search rt None line)"

definition lrn_label :: "pystr \<Rightarrow> bool" where
  "lrn_label line =
     (contains (asc ''LRN :'') line \<or> contains (asc ''LRN:'') line \<or>
      contains (asc ''LRN '') line)"

text \<open>
  \<open>find_data_section\<close> (lines 190 to 216): the index of the first code line; failing
  that, \<open>max(0, i - 2)\<close> for the first label line \<open>i\<close> (the subtraction on \<open>nat\<close>
  stops at 0); failing that, 80.
\<close>

definition find_data_section :: "runtime \<Rightarrow> pystr list \<Rightarrow> nat" where
  "find_data_section rt lines =
     (case find (\<lambda>i. decl_code_line rt (lines ! i)) [0..<length lines] of
        Some i \<Rightarrow> i
      | None \<Rightarrow>
          (case find (\<lambda>i. lrn_label (lines ! i)) [0..<length lines] of
             Some i \<Rightarrow> i - 2
           | None \<Rightarrow> 80))"

section \<open>Header Field Extractor (extract\_heahea)\<close>

definition SEVERNA_MAKEDONIJA :: pystr where
  "SEVERNA_MAKEDONIJA =
     [1057, 1045, 1042, 1045, 1056, 1053, 1040, 32, 1052, 1040, 1050, 1045, 1044, 1054, 1053,
      1048, 1032, 1040]"

definition MAKEDONIJA :: pystr where
  "MAKEDONIJA = [1052, 1040, 1050, 1045, 1044, 1054, 1053, 1048, 1032, 1040]"

definition country_names :: "pystr list" where
  "country_names =
     [[1060, 1056, 1040, 1053, 1062, 1048, 1032, 1040],
      [1043, 1045, 1056, 1052, 1040, 1053, 1048, 1032, 1040],
      [1060, 1056, 1040, 1053, 1062, 1045],
      asc ''FRANCE'', asc ''GERMANY'', asc ''ITALIA'',
      [1048, 1058, 1040, 1051, 1048, 1032, 1040]]"

definition delivery_terms :: "pystr list" where
  "delivery_terms = [asc ''CPT'', asc ''CIF'', asc ''FOB'', asc ''EXW'', asc ''FCA'', asc ''DAP'']"

definition mode_digits :: "pystr list" where
  "mode_digits = [asc ''1'', asc ''2'', asc ''3'', asc ''4'', asc ''5'', asc ''6'', asc ''7'',
                  asc ''8'', asc ''9'']"

text \<open>
  Total gross mass (lines 235 to 240): the first line that strips to \<open>KGM\<close> ends the
  search; \<open>mass_line\<close> is the stripped line before it (empty when there is none). It is
  taken when \<open>isdigit()\<close> holds, and \<open>int()\<close> of it is not guarded, so its ValueError
  leaves the method.
\<close>

definition mass_line :: "pystr list \<Rightarrow> pystr option" where
  "mass_line lines =
     map_option (\<lambda>i. get_line_safe lines (int i - 1))
       (find (\<lambda>i. strip (lines ! i) = asc ''KGM'') [0..<length lines])"

definition total_gross_mass :: "runtime \<Rightarrow> pystr list \<Rightarrow> pydict \<Rightarrow> pyerror + pydict" where
  "total_gross_mass rt lines d =
     (case mass_line lines of
        None \<Rightarrow> Inr d
      | Some m \<Rightarrow>
          (if py_isdigit rt m
           then (case py_int rt m of
                   None \<Rightarrow> Inl ValueError
                 | Some n \<Rightarrow> Inr (dict_set (asc ''TotGroMasHEA307'') (JInt n) d))
           else Inr d))"

text \<open>Identity and nationality of the means of transport (lines 243 to 253).\<close>

definition transport_identity :: "runtime \<Rightarrow> pystr list \<Rightarrow> nat \<Rightarrow> pydict \<Rightarrow> pydict" where
  "transport_identity rt lines dsi d =
     (case find (\<lambda>i. vehicle_pattern rt (strip (lines ! i))) (window lines dsi 50) of
        None \<Rightarrow> d
      | Some i \<Rightarrow>
          (let d1 = dict_set (asc ''IdeOfMeaOfTraAtDHEA78'') (JStr (strip (lines ! i))) d;
               next_line = snd (find_next_nonempty_line lines (i + 1) 3)
           in if next_line \<noteq> [] \<and> two_upper next_line
              then dict_set (asc ''NatOfMeaOfTraCroHEA87'') (JStr next_line) d1
              else d1))"

text \<open>Mode of transport at the border (lines 257 to 269): the last candidate wins.\<close>

definition mode_candidate :: "pystr list \<Rightarrow> nat \<Rightarrow> bool" where
  "mode_candidate lines i =
     (strip (lines ! i) \<in> set mode_digits \<and>
      (two_three_upper (get_line_safe lines (int i - 1)) \<or>
       contains (asc ''EUR'') (get_line_safe lines (int i + 1)) \<or>
       contains (asc ''USD'') (get_line_safe lines (int i + 1))))"

definition transport_mode :: "pystr list \<Rightarrow> nat \<Rightarrow> pydict \<Rightarrow> pydict" where
  "transport_mode lines dsi d =
     (let mode_candidates =
            map (\<lambda>i. strip (lines ! i)) (filter (mode_candidate lines) (window lines dsi 50))
      in if mode_candidates \<noteq> []
         then dict_set (asc ''TraModAtBorHEA76'') (JStr (last mode_candidates)) d
         else d)"

text \<open>
  Country of dispatch (lines 273 to 287): a country-name line followed by a two-letter
  code ends the loop; a bare \<open>MK\<close> line past the first fifteen lines of the window is
  recorded when nothing is recorded yet, and the loop goes on.
\<close>

fun dispatch_loop :: "runtime \<Rightarrow> pystr list \<Rightarrow> nat \<Rightarrow> nat list \<Rightarrow> pydict \<Rightarrow> pydict" where
  "dispatch_loop rt lines dsi [] d = d"
| "dispatch_loop rt lines dsi (i # rest) d =
     (if contains SEVERNA_MAKEDONIJA (strip (lines ! i)) \<or>
         contains MAKEDONIJA (strip (lines ! i)) \<or>
         contains (asc ''MACEDONIA'') (strip (lines ! i))
      then (if snd (find_next_nonempty_line lines (i + 1) 3) \<noteq> [] \<and>
               two_upper (snd (find_next_nonempty_line lines (i + 1) 3))
            then dict_set (asc ''CouOfDisCodHEA55'')
                   (JStr (snd (find_next_nonempty_line lines (i + 1) 3))) d
            else dispatch_loop rt lines dsi rest d)
      else if strip (lines ! i) = asc ''MK'' \<and> i > dsi + 15
      then (if \<not> startswith (get_line_safe lines (int i - 1)) (asc ''MK'') \<and>
               \<not> py_isdigit rt (get_line_safe lines (int i - 1)) \<and>
               \<not> dict_has (asc ''CouOfDisCodHEA55'') d
            then dispatch_loop rt lines dsi rest
                   (dict_set (asc ''CouOfDisCodHEA55'') (JStr (strip (lines ! i))) d)
            else dispatch_loop rt lines dsi rest d)
      else dispatch_loop rt lines dsi rest d)"

definition dispatch_country :: "runtime \<Rightarrow> pystr list \<Rightarrow> nat \<Rightarrow> pydict \<Rightarrow> pydict" where
  "dispatch_country rt lines dsi d = dispatch_loop rt lines dsi (window lines dsi 50) d"

text \<open>
  Country of destination (lines 291 to 305): for each line of the window and each
  country name it contains, the next four lines are searched for a two-letter code other
  than \<open>MK\<close>; both loops stop as soon as the key is in the dict.
\<close>

definition destination_code :: "pystr list \<Rightarrow> nat \<Rightarrow> pydict \<Rightarrow> pydict" where
  "destination_code lines i d =
     (case find (\<lambda>j. two_upper (strip (lines ! j)) \<and> strip (lines ! j) \<noteq> asc ''MK'')
             [i + 1..<min (length lines) (i + 5)] of
        None \<Rightarrow> d
      | Some j \<Rightarrow> dict_set (asc ''CouOfDesCodHEA30'') (JStr (strip (lines ! j))) d)"

fun destination_names :: "pystr list \<Rightarrow> nat \<Rightarrow> pystr list \<Rightarrow> pydict \<Rightarrow> pydict" where
  "destination_names lines i [] d = d"
| "destination_names lines i (country # rest) d =
     (if contains country (strip (lines ! i))
      then (if dict_has (asc ''CouOfDesCodHEA30'') (destination_code lines i d)
            then destination_code lines i d
            else destination_names lines i rest (destination_code lines i d))
      else destination_names lines i rest d)"

fun destination_loop :: "pystr list \<Rightarrow> nat list \<Rightarrow> pydict \<Rightarrow> pydict" where
  "destination_loop lines [] d = d"
| "destination_loop lines (i # rest) d =
     (if dict_has (asc ''CouOfDesCodHEA30'') (destination_names lines i country_names d)
      then destination_names lines i country_names d
      else destination_loop lines rest (destination_names lines i country_names d))"

definition destination_country :: "pystr list \<Rightarrow> nat \<Rightarrow> pydict \<Rightarrow> pydict" where
  "destination_country lines dsi d = destination_loop lines (window lines dsi 50) d"

text \<open>Container indicator (lines 309 to 316) and declaration place (lines 320 to 326).\<close>

definition container_indicator :: "pystr list \<Rightarrow> nat \<Rightarrow> pydict \<Rightarrow> pydict" where
  "container_indicator lines dsi d =
     (case find (\<lambda>i. strip (lines ! i) \<in> set [asc ''0'', asc ''1''] \<and>
                     snd (find_next_nonempty_line lines (i + 1) 3) \<in> set delivery_terms)
             (window lines dsi 50) of
        None \<Rightarrow> d
      | Some i \<Rightarrow> dict_set (asc ''ConIndHEA96'') (JStr (strip (lines ! i))) d)"

definition place_name :: "pystr list \<Rightarrow> nat \<Rightarrow> pystr" where
  "place_name lines i = snd (find_next_nonempty_line lines (i + 1) 2)"

definition declaration_place :: "runtime \<Rightarrow> pystr list \<Rightarrow> nat \<Rightarrow> pydict \<Rightarrow> pydict" where
  "declaration_place rt lines dsi d =
     (case find (\<lambda>i. n_digits rt 4 (strip (lines ! i)) \<and> place_name lines i \<noteq> [] \<and>
                     length (place_name lines i) > 3 \<and>
                     \<not> py_isdigit rt (place_name lines i))
             (window lines dsi 50) of
        None \<Rightarrow> d
      | Some i \<Rightarrow>
          dict_set (asc ''DecPlaHEA394'')
            (JStr (strip (lines ! i) @ asc '' '' @ place_name lines i)) d)"

text \<open>
  \<open>extract_heahea\<close> runs the seven searches in the order of the source on
  \<open>self.data["HEAHEA"]\<close>, which \<open>__init__\<close> sets to the empty dict;
  \<open>header_after_mass\<close> is the six searches that follow the gross mass.
\<close>

definition header_after_mass :: "runtime \<Rightarrow> pystr list \<Rightarrow> nat \<Rightarrow> pydict \<Rightarrow> pydict" where
  "header_after_mass rt lines dsi d =
     declaration_place rt lines dsi
       (container_indicator lines dsi
          (destination_country lines dsi
             (dispatch_country rt lines dsi
                (transport_mode lines dsi
                   (transport_identity rt lines dsi d)))))"

definition extract_heahea :: "runtime \<Rightarrow> pystr list \<Rightarrow> nat \<Rightarrow> pyerror + pydict" where
  "extract_heahea rt lines dsi =
     (case total_gross_mass rt lines [] of
        Inl e \<Rightarrow> Inl e
      | Inr d \<Rightarrow> Inr (header_after_mass rt lines dsi d))"

section \<open>Party Extractors (extract\_traexpex1, extract\_traconce1)\<close>

definition MK_cyrillic :: pystr where
  "MK_cyrillic = [1052, 1050]"

definition ul :: pystr where
  "ul = [1091, 1083, 46]"

definition bul :: pystr where
  "bul = [1073, 1091, 1083, 46]"

text \<open>\<open>s.split(',')[-1]\<close>: what follows the last comma, the whole string without one.\<close>

definition after_last_comma :: "pystr \<Rightarrow> pystr" where
  "after_last_comma s = rev (takeWhile (\<lambda>c. c \<noteq> 44) (rev s))"

text \<open>
  Sender (lines 331 to 361): the first line of the window that is a tax number; the
  name and the address are the next non-empty lines (\<open>next_idx\<close> is \<open>-1\<close> when no
  name is found, and the address is then searched from line 0).
\<close>

definition sender_address :: "runtime \<Rightarrow> pystr \<Rightarrow> pydict \<Rightarrow> pydict" where
  "sender_address rt next_line2 d =
     (if next_line2 \<noteq> [] \<and>
         (contains ul next_line2 \<or> contains bul next_line2 \<or>
          contains (asc ''str.'') (lower rt next_line2))
      then (if 44 \<in> set next_line2
            then dict_set (asc ''CitEX124'') (JStr (strip (after_last_comma next_line2)))
                   (dict_set (asc ''StrAndNumEX122'') (JStr next_line2) d)
            else dict_set (asc ''StrAndNumEX122'') (JStr next_line2) d)
      else d)"

definition sender_fields :: "runtime \<Rightarrow> pystr list \<Rightarrow> nat \<Rightarrow> pydict \<Rightarrow> pydict" where
  "sender_fields rt lines i d =
     (let d1 = dict_set (asc ''TINEX159'') (JStr (strip (lines ! i))) d;
          next = find_next_nonempty_line lines (i + 1) 2;
          d2 = (if snd next \<noteq> [] then dict_set (asc ''NamEX17'') (JStr (snd next)) d1 else d1);
          next2 = find_next_nonempty_line lines (nat (fst next + 1)) 2
      in sender_address rt (snd next2) d2)"

definition sender_country :: "pydict \<Rightarrow> pydict" where
  "sender_country d =
     (case map_of d (asc ''TINEX159'') of
        Some (JStr tin) \<Rightarrow>
          (if take 2 tin = asc ''MK''
           then dict_set (asc ''CouEX125'') (JStr MK_cyrillic) d
           else dict_set (asc ''CouEX125'') (JStr (take 2 tin)) d)
      | _ \<Rightarrow> d)"

definition extract_traexpex1 :: "runtime \<Rightarrow> pystr list \<Rightarrow> nat \<Rightarrow> pydict" where
  "extract_traexpex1 rt lines dsi =
     sender_country
       (dict_set (asc ''PosCodEX123'') JNull
          (case find (\<lambda>i. tin_pattern rt (strip (lines ! i))) (window lines dsi 20) of
             None \<Rightarrow> []
           | Some i \<Rightarrow> sender_fields rt lines i []))"

text \<open>
  The postal pattern \<open>(\d{4,6})\s+([^\n]+)$\<close> of line 388, searched in the stripped
  address line: at a start position the digit group is tried with 6, 5 and 4 digits, the
  white space from its longest run down to one character, and the second group must
  reach the end of the line without a newline. The result is the two groups.
\<close>

definition postal_rest :: "pystr \<Rightarrow> pystr option" where
  "postal_rest r =
     map_option (\<lambda>k. drop k r)
       (find (\<lambda>k. drop k r \<noteq> [] \<and> 10 \<notin> set (drop k r))
          (rev [1..<Suc (length (takeWhile py_isspace r))]))"

definition postal_at :: "runtime \<Rightarrow> pystr \<Rightarrow> (pystr \<times> pystr) option" where
  "postal_at rt s =
     (case find (\<lambda>n. n \<le> length s \<and> list_all (is_decimal rt) (take n s) \<and>
                     postal_rest (drop n s) \<noteq> None) [6, 5, 4] of
        None \<Rightarrow> None
      | Some n \<Rightarrow> map_option (\<lambda>g. (take n s, g)) (postal_rest (drop n s)))"

fun postal_search :: "runtime \<Rightarrow> pystr \<Rightarrow> (pystr \<times> pystr) option" where
  "postal_search rt [] = None"
| "postal_search rt (c # cs) =
     (case postal_at rt (c # cs) of
        Some g \<Rightarrow> Some g
      | None \<Rightarrow> postal_search rt cs)"

text \<open>
  Receiver (lines 369 to 410). The loop stops at the first reference number of the
  window whose preceding line is a two-letter code other than \<open>MK\<close>; country, address,
  name and the tax number of the following line are recorded there. After the loop the
  tax number is set to \<open>None\<close> in every case.
\<close>

definition receiver_anchor :: "runtime \<Rightarrow> pystr list \<Rightarrow> nat \<Rightarrow> bool" where
  "receiver_anchor rt lines i =
     (ref_number rt (strip (lines ! i)) \<and> \<not> startswith (strip (lines ! i)) (asc ''MK'') \<and>
      i \<ge> 1 \<and> two_upper (strip (lines ! (i - 1))) \<and>
      strip (lines ! (i - 1)) \<notin> set [asc ''MK'', MK_cyrillic])"

definition receiver_address :: "runtime \<Rightarrow> pystr list \<Rightarrow> nat \<Rightarrow> pydict \<Rightarrow> pydict" where
  "receiver_address rt lines i d =
     (if i \<ge> 2 \<and> strip (lines ! (i - 2)) \<noteq> [] \<and> length (strip (lines ! (i - 2))) > 2
      then (case postal_search rt (strip (lines ! (i - 2))) of
              Some (code, city) \<Rightarrow>
                dict_set (asc ''CitCE124'') (JStr (strip city))
                  (dict_set (asc ''PosCodCE123'') (JStr code)
                     (dict_set (asc ''StrAndNumCE122'') (JStr (strip (lines ! (i - 2)))) d))
            | None \<Rightarrow>
                dict_set (asc ''CitCE124'') (JStr (strip (lines ! (i - 2))))
                  (dict_set (asc ''StrAndNumCE122'') (JStr (strip (lines ! (i - 2)))) d))
      else d)"

definition receiver_name :: "pystr list \<Rightarrow> nat \<Rightarrow> pydict \<Rightarrow> pydict" where
  "receiver_name lines i d =
     (if i \<ge> 3 \<and> strip (lines ! (i - 3)) \<noteq> [] \<and> length (strip (lines ! (i - 3))) > 5
      then dict_set (asc ''NamCE17'') (JStr (strip (lines ! (i - 3)))) d
      else d)"

definition receiver_tin :: "runtime \<Rightarrow> pystr list \<Rightarrow> nat \<Rightarrow> pydict \<Rightarrow> pydict" where
  "receiver_tin rt lines i d =
     (if i + 1 < length lines \<and> tin_like rt (strip (lines ! (i + 1)))
      then dict_set (asc ''TINCE159'') (JStr (strip (lines ! (i + 1)))) d
      else d)"

definition receiver_scan :: "runtime \<Rightarrow> pystr list \<Rightarrow> nat \<Rightarrow> pydict" where
  "receiver_scan rt lines dsi =
     (case find (receiver_anchor rt lines) [dsi + 5..<min (length lines) (dsi + 30)] of
        None \<Rightarrow> []
      | Some i \<Rightarrow>
          receiver_tin rt lines i
            (receiver_name lines i
               (receiver_address rt lines i
                  (dict_set (asc ''CouCE125'') (JStr (strip (lines ! (i - 1)))) []))))"

definition extract_traconce1 :: "runtime \<Rightarrow> pystr list \<Rightarrow> nat \<Rightarrow> pydict" where
  "extract_traconce1 rt lines dsi =
     dict_set (asc ''TINCE159'') JNull (receiver_scan rt lines dsi)"

section \<open>Goods Item Segmenter (extract\_gooitegds)\<close>

text \<open>\<open>str(n)\<close> for the item number, and \<open>' '.join(self.lines)\<close>.\<close>

fun str_nat :: "nat \<Rightarrow> pystr" where
  "str_nat n = (if n < 10 then [48 + n] else str_nat (n div 10) @ [48 + n mod 10])"

fun join_space :: "pystr list \<Rightarrow> pystr" where
  "join_space [] = []"
| "join_space [l] = l"
| "join_space (l # ls) = l @ [32] @ join_space ls"

text \<open>
  The landmarks (lines 416 to 422): every line from \<open>search_start\<close> on that strips
  to eight decimal digits; the search starts at \<open>max(data_start_index, 100)\<close> and keeps
  each landmark with its index.
\<close>

definition landmark_lines :: "runtime \<Rightarrow> pystr list \<Rightarrow> nat \<Rightarrow> nat list" where
  "landmark_lines rt lines search_start =
     filter (\<lambda>i. n_digits rt 8 (strip (lines ! i))) [search_start..<length lines]"

definition commodity_positions :: "runtime \<Rightarrow> pystr list \<Rightarrow> nat \<Rightarrow> (nat \<times> pystr) list" where
  "commodity_positions rt lines dsi =
     map (\<lambda>i. (i, strip (lines ! i))) (landmark_lines rt lines (max dsi 100))"

definition create_empty_item :: json where
  "create_empty_item =
     JDict [(asc ''IteNumGDS7'', JStr (asc ''1'')),
            (asc ''GroMasGDS46'', JNull),
            (asc ''GooDesGDS23'', JStr []),
            (asc ''UNDanGooCodGDI1'', JNull),
            (asc ''COMCODGODITM'', JDict [(asc ''ComNomCMD1'', JStr [])]),
            (asc ''PACGS2'', JList []),
            (asc ''PRODOCDC2'', JList [])]"

text \<open>
  Description (lines 453 to 467). \<open>re.sub\<close> with the pattern of line 457 replaces
  every \<open>-1\<close>, white space, \<open>kom.\<close> (in Cyrillic) by the same without the white space;
  after a replacement the scan goes on behind the match, which is the rest of the
  string from index \<open>1 + k + 4\<close> of the tail.
\<close>

definition paleta_upper :: pystr where
  "paleta_upper = [1055, 1072, 1083, 1077, 1090, 1072]"

definition paleta_lower :: pystr where
  "paleta_lower = [1087, 1072, 1083, 1077, 1090, 1072]"

definition kom :: pystr where
  "kom = [1082, 1086, 1084, 46]"

fun kom_sub :: "pystr \<Rightarrow> pystr" where
  "kom_sub [] = []"
| "kom_sub (c # cs) =
     (if c = 45 \<and> startswith cs [49] \<and> 1 \<le> length (takeWhile py_isspace (drop 1 cs)) \<and>
         startswith (drop (1 + length (takeWhile py_isspace (drop 1 cs))) cs) kom
      then [45, 49] @ kom @ kom_sub (drop (1 + length (takeWhile py_isspace (drop 1 cs)) + 4) cs)
      else c # kom_sub cs)"

definition description_after_pallet :: "runtime \<Rightarrow> pystr list \<Rightarrow> nat \<Rightarrow> nat \<Rightarrow> pystr" where
  "description_after_pallet rt lines commodity_index item_end =
     (case find (\<lambda>i. contains paleta_upper (lines ! i) \<or>
                     contains paleta_lower (lower rt (lines ! i)))
             [commodity_index..<min (commodity_index + 10) item_end] of
        None \<Rightarrow> []
      | Some i \<Rightarrow>
          (let desc = snd (find_next_nonempty_line lines (i + 1) 3)
           in if desc \<noteq> [] \<and> length desc > 5 then kom_sub desc else []))"

definition description_after_code :: "runtime \<Rightarrow> pystr list \<Rightarrow> nat \<Rightarrow> nat \<Rightarrow> pystr" where
  "description_after_code rt lines commodity_index item_end =
     (case find (\<lambda>j. length (strip (lines ! j)) > 10 \<and> \<not> py_isdigit rt (strip (lines ! j)) \<and>
                     \<not> two_upper (strip (lines ! j)))
             [commodity_index + 1..<min (commodity_index + 5) item_end] of
        None \<Rightarrow> []
      | Some j \<Rightarrow> strip (lines ! j))"

definition description :: "runtime \<Rightarrow> pystr list \<Rightarrow> nat \<Rightarrow> nat \<Rightarrow> pystr" where
  "description rt lines commodity_index item_end =
     (if description_after_pallet rt lines commodity_index item_end \<noteq> []
      then description_after_pallet rt lines commodity_index item_end
      else description_after_code rt lines commodity_index item_end)"

text \<open>
  Gross mass and packaging (lines 470 to 491), at the first package-type line of the
  item's range: the mass is the second non-empty line after it, given to \<open>float()\<close>
  with commas turned into points (a ValueError is caught and leaves \<open>None\<close>); the
  package count is the line before it when \<open>isdigit()\<close> holds.
\<close>

definition package_types :: "pystr list" where
  "package_types = [asc ''PX'', asc ''CT'', asc ''BX'', asc ''PA'', asc ''PK'', asc ''CS'', asc ''CR'']"

definition gross_mass_at :: "runtime \<Rightarrow> pystr list \<Rightarrow> nat \<Rightarrow> json" where
  "gross_mass_at rt lines i =
     (let num1 = find_next_nonempty_line lines (i + 1) 3 in
      if snd num1 \<noteq> []
      then (let num2 = find_next_nonempty_line lines (nat (fst num1 + 1)) 3 in
            if snd num2 \<noteq> []
            then (case float_of_str rt (map (\<lambda>c. if c = 44 then 46 else c) (snd num2)) of
                    Some mass \<Rightarrow> JFloat mass
                  | None \<Rightarrow> JNull)
            else JNull)
      else JNull)"

definition packages_at :: "runtime \<Rightarrow> pystr list \<Rightarrow> nat \<Rightarrow> json list" where
  "packages_at rt lines i =
     (let num_packages = snd (find_prev_nonempty_line lines (int i - 1) 1) in
      if num_packages \<noteq> [] \<and> py_isdigit rt num_packages
      then [JDict [(asc ''KinOfPacGS23'', JStr (strip (lines ! i))),
                   (asc ''NumOfPacGS24'', JStr num_packages),
                   (asc ''MarNumOfPacGS21'', JNull)]]
      else [])"

definition package_line :: "pystr list \<Rightarrow> nat \<Rightarrow> nat \<Rightarrow> nat option" where
  "package_line lines item_start item_end =
     find (\<lambda>i. strip (lines ! i) \<in> set package_types) [item_start..<item_end]"

text \<open>
  Previous documents (lines 495 to 515), for the first item only: the matches of
  \<open>(\w+)\(([^\)]+)\)\<close> in the joined text, in order. At a start position the word
  group is tried from its longest run down to one character; it must be followed by an
  opening bracket, one or more characters other than a closing bracket, and a closing
  bracket. A match is never empty, and the scan goes on behind it: behind a match of
  length \<open>n\<close> that is the tail from index \<open>n - 1\<close>.
\<close>

definition doc_tail :: "pystr \<Rightarrow> (pystr \<times> nat) option" where
  "doc_tail r =
     (case r of
        [] \<Rightarrow> None
      | c # r' \<Rightarrow>
          (if c = 40 \<and> takeWhile (\<lambda>x. x \<noteq> 41) r' \<noteq> [] \<and>
              length (takeWhile (\<lambda>x. x \<noteq> 41) r') < length r'
           then Some (takeWhile (\<lambda>x. x \<noteq> 41) r', length (takeWhile (\<lambda>x. x \<noteq> 41) r') + 2)
           else None))"

definition doc_match_at :: "runtime \<Rightarrow> pystr \<Rightarrow> (pystr \<times> pystr \<times> nat) option" where
  "doc_match_at rt s =
     (case find (\<lambda>m. doc_tail (drop m s) \<noteq> None)
             (rev [1..<Suc (length (takeWhile (isword_char rt) s))]) of
        None \<Rightarrow> None
      | Some m \<Rightarrow> map_option (\<lambda>(g, n). (take m s, g, m + n)) (doc_tail (drop m s)))"

fun doc_finditer :: "runtime \<Rightarrow> nat \<Rightarrow> pystr \<Rightarrow> (pystr \<times> pystr \<times> nat) list" where
  "doc_finditer rt pos [] = []"
| "doc_finditer rt pos (c # cs) =
     (case doc_match_at rt (c # cs) of
        None \<Rightarrow> doc_finditer rt (pos + 1) cs
      | Some (doc_type, doc_ref, n) \<Rightarrow>
          (doc_type, doc_ref, pos) # doc_finditer rt (pos + n) (drop (n - 1) cs))"

definition doc_types :: "pystr list" where
  "doc_types = [asc ''5010'', asc ''5016'', asc ''5009'', asc ''5007'', asc ''POAN'',
                asc ''5069'', asc ''AUN'', asc ''5077'', asc ''T1'']"

fun dedup_docs :: "(pystr \<times> pystr \<times> nat) list \<Rightarrow> (pystr \<times> pystr) list \<Rightarrow> json list" where
  "dedup_docs [] seen = []"
| "dedup_docs ((doc_type, doc_ref, pos) # rest) seen =
     (if doc_type = asc ''5007'' then dedup_docs rest seen
      else if (doc_type, doc_ref) \<notin> set seen
      then JDict [(asc ''DocTypDC21'', JStr doc_type), (asc ''DocRefDC23'', JStr doc_ref)]
             # dedup_docs rest ((doc_type, doc_ref) # seen)
      else dedup_docs rest seen)"

definition previous_documents :: "runtime \<Rightarrow> pystr list \<Rightarrow> json list" where
  "previous_documents rt lines =
     dedup_docs
       (sort_key (\<lambda>(doc_type, doc_ref, pos). pos)
          (filter (\<lambda>(doc_type, doc_ref, pos). doc_type \<in> set doc_types)
             (doc_finditer rt 0 (join_space lines))))
       []"

text \<open>One item (lines 431 to 517) and the loop over the landmarks.\<close>

definition build_item :: "runtime \<Rightarrow> pystr list \<Rightarrow> nat \<Rightarrow> nat \<Rightarrow> pystr \<Rightarrow> nat \<Rightarrow> json" where
  "build_item rt lines item_num commodity_index commodity_code next_commodity_index =
     (let item_start = commodity_index - 30;
          item_end = min (length lines) next_commodity_index;
          pack = package_line lines item_start item_end
      in JDict [(asc ''IteNumGDS7'', JStr (str_nat item_num)),
                (asc ''GroMasGDS46'',
                   (case pack of None \<Rightarrow> JNull | Some i \<Rightarrow> gross_mass_at rt lines i)),
                (asc ''GooDesGDS23'', JStr (description rt lines commodity_index item_end)),
                (asc ''UNDanGooCodGDI1'', JNull),
                (asc ''COMCODGODITM'', JDict [(asc ''ComNomCMD1'', JStr commodity_code)]),
                (asc ''PACGS2'',
                   JList (case pack of None \<Rightarrow> [] | Some i \<Rightarrow> packages_at rt lines i)),
                (asc ''PRODOCDC2'',
                   JList (if item_num = 1 then previous_documents rt lines else []))])"

fun build_items :: "runtime \<Rightarrow> pystr list \<Rightarrow> nat \<Rightarrow> (nat \<times> pystr) list \<Rightarrow> json list" where
  "build_items rt lines item_num [] = []"
| "build_items rt lines item_num ((commodity_index, commodity_code) # rest) =
     build_item rt lines item_num commodity_index commodity_code
       (case rest of [] \<Rightarrow> length lines | (next_index, next_code) # later \<Rightarrow> next_index)
     # build_items rt lines (Suc item_num) rest"

definition extract_gooitegds :: "runtime \<Rightarrow> pystr list \<Rightarrow> nat \<Rightarrow> json list" where
  "extract_gooitegds rt lines dsi =
     (if commodity_positions rt lines dsi = [] then [create_empty_item]
      else build_items rt lines 1 (commodity_positions rt lines dsi))"

text \<open>
  The customs engine (extract\_ecd\_customs.py, lines 506 to 521) records the matches of
  its two patterns, those of the first pattern before those of the second, each match
  with its two groups: a match is recorded when its type is in the vocabulary and the
  string \<open>type-reference\<close> was not recorded before.
\<close>

definition customs_doc_types :: "pystr list" where
  "customs_doc_types = [asc ''AUN'', asc ''POAN'', asc ''5016'', asc ''5011'', asc ''Y024'',
                        asc ''5010'', asc ''5069'', asc ''T010'', asc ''E042'', asc ''2037'']"

fun customs_documents :: "(pystr \<times> pystr) list \<Rightarrow> pystr list \<Rightarrow> json list" where
  "customs_documents [] found_docs = []"
| "customs_documents ((doc_type, doc_ref) # rest) found_docs =
     (if doc_type @ asc ''-'' @ doc_ref \<notin> set found_docs \<and> doc_type \<in> set customs_doc_types
      then JDict [(asc ''DocTypDC21'', JStr doc_type), (asc ''DocRefDC23'', JStr doc_ref)]
             # customs_documents rest ((doc_type @ asc ''-'' @ doc_ref) # found_docs)
      else customs_documents rest found_docs)"

section \<open>Record Assembler (extract\_all)\<close>

text \<open>
  \<open>extract_all\<close> on the lines of the document (text acquisition is outside the
  model): the locator, then the four extractors on the record that \<open>__init__\<close>
  built. The result is \<open>self.data\<close>, which \<open>assemble\<close> puts together from the
  header and the other three extractors; an exception of the header extractor ends the
  run.
\<close>

definition seal_info :: pydict where
  "seal_info =
     [(asc ''SeaNumSLI2'', JNull),
      (asc ''SEAIDSID'', JList [JDict [(asc ''SeaIdeSID1'', JStr [])]])]"

definition assemble :: "runtime \<Rightarrow> pystr list \<Rightarrow> nat \<Rightarrow> pydict \<Rightarrow> json" where
  "assemble rt lines dsi heahea =
     JDict [(asc ''HEAHEA'', JDict heahea),
            (asc ''TRAEXPEX1'', JDict (extract_traexpex1 rt lines dsi)),
            (asc ''TRACONCE1'', JDict (extract_traconce1 rt lines dsi)),
            (asc ''SEAINFSLI'', JDict seal_info),
            (asc ''GOOITEGDS'', JList (extract_gooitegds rt lines dsi))]"

definition extract_all :: "runtime \<Rightarrow> pystr list \<Rightarrow> pyerror + json" where
  "extract_all rt lines =
     (case extract_heahea rt lines (find_data_section rt lines) of
        Inl e \<Rightarrow> Inl e
      | Inr heahea \<Rightarrow> Inr (assemble rt lines (find_data_section rt lines) heahea))"

text \<open>Reading the output: \<open>v[k]\<close> for a dict \<open>v\<close>, and the keys of a dict.\<close>

definition json_get :: "pystr \<Rightarrow> json \<Rightarrow> json option" where
  "json_get k v = (case v of JDict d \<Rightarrow> map_of d k | _ \<Rightarrow> None)"

definition json_keys :: "json \<Rightarrow> pystr list" where
  "json_keys v = (case v of JDict d \<Rightarrow> map fst d | _ \<Rightarrow> [])"

definition json_items :: "json \<Rightarrow> json list" where
  "json_items v = (case v of JList xs \<Rightarrow> xs | _ \<Rightarrow> [])"

text \<open>
  The reference documents of an item, each as its pair of type and reference, and the
  test that a pair's type is in a vocabulary.
\<close>

definition item_documents :: "json \<Rightarrow> json list" where
  "item_documents item =
     (case json_get (asc ''PRODOCDC2'') item of Some (JList ds) \<Rightarrow> ds | _ \<Rightarrow> [])"

definition doc_pairs :: "json list \<Rightarrow> (json option \<times> json option) list" where
  "doc_pairs ds = map (\<lambda>e. (json_get (asc ''DocTypDC21'') e, json_get (asc ''DocRefDC23'') e)) ds"

definition known_type :: "pystr list \<Rightarrow> json option \<times> json option \<Rightarrow> bool" where
  "known_type vocabulary p = (fst p \<in> set (map (\<lambda>t. Some (JStr t)) vocabulary))"

text \<open>
  A section of the record as a dict, a dict without a \<open>None\<close> value, a dict with no
  \<open>None\<close> value but under one key, and the shape
  of a goods item: its seven keys, the key of its commodity code, the three keys of each
  package and the two keys of each document.
\<close>

definition section_dict :: "pystr \<Rightarrow> json \<Rightarrow> pydict" where
  "section_dict k v = (case json_get k v of Some (JDict d) \<Rightarrow> d | _ \<Rightarrow> [])"

definition section_list :: "pystr \<Rightarrow> json \<Rightarrow> json list" where
  "section_list k v = (case json_get k v of Some (JList xs) \<Rightarrow> xs | _ \<Rightarrow> [])"

definition never_null :: "pydict \<Rightarrow> bool" where
  "never_null d = list_all (\<lambda>p. snd p \<noteq> JNull) d"

definition null_only_at :: "pystr \<Rightarrow> pydict \<Rightarrow> bool" where
  "null_only_at k d = list_all (\<lambda>p. fst p = k \<or> snd p \<noteq> JNull) d"

definition item_keys :: "pystr list" where
  "item_keys = [asc ''IteNumGDS7'', asc ''GroMasGDS46'', asc ''GooDesGDS23'',
                asc ''UNDanGooCodGDI1'', asc ''COMCODGODITM'', asc ''PACGS2'',
                asc ''PRODOCDC2'']"

definition item_shape :: "json \<Rightarrow> bool" where
  "item_shape item =
     (json_keys item = item_keys \<and>
      map fst (section_dict (asc ''COMCODGODITM'') item) = [asc ''ComNomCMD1''] \<and>
      list_all (\<lambda>p. json_keys p = [asc ''KinOfPacGS23'', asc ''NumOfPacGS24'',
                                       asc ''MarNumOfPacGS21''])
        (section_list (asc ''PACGS2'') item) \<and>
      list_all (\<lambda>d. json_keys d = [asc ''DocTypDC21'', asc ''DocRefDC23''])
        (section_list (asc ''PRODOCDC2'') item))"

text \<open>
  No line of the document is a landmark of the locator, and the record in which nothing
  is resolved: the header is empty, the parties hold the two fields that are always
  \<open>None\<close>, and the goods items are the placeholder.
\<close>

definition no_landmark :: "runtime \<Rightarrow> pystr list \<Rightarrow> bool" where
  "no_landmark rt lines = list_all (\<lambda>l. \<not> decl_code_line rt l \<and> \<not> lrn_label l) lines"

definition unresolved_declaration :: json where
  "unresolved_declaration =
     JDict [(asc ''HEAHEA'', JDict []),
            (asc ''TRAEXPEX1'', JDict [(asc ''PosCodEX123'', JNull)]),
            (asc ''TRACONCE1'', JDict [(asc ''TINCE159'', JNull)]),
            (asc ''SEAINFSLI'', JDict seal_info),
            (asc ''GOOITEGDS'', JList [create_empty_item])]"

text \<open>What a run returns for a section: \<open>None\<close> when the run ended in an error.\<close>

definition result_section :: "pystr \<Rightarrow> pyerror + json \<Rightarrow> json option" where
  "result_section k r = (case r of Inl e \<Rightarrow> None | Inr v \<Rightarrow> json_get k v)"

text \<open>The gross-mass search finds no match: no unit line, or a line before it that is
  not \<open>isdigit()\<close>.\<close>

definition mass_unmatched :: "runtime \<Rightarrow> pystr list \<Rightarrow> bool" where
  "mass_unmatched rt lines =
     (case mass_line lines of None \<Rightarrow> True | Some m \<Rightarrow> \<not> py_isdigit rt m)"

definition mass_refused :: "runtime \<Rightarrow> pystr list \<Rightarrow> bool" where
  "mass_refused rt lines =
     (case mass_line lines of None \<Rightarrow> False | Some m \<Rightarrow> py_isdigit rt m \<and> py_int rt m = None)"

section \<open>When an extractor finds a value\<close>

text \<open>
  The conditions under which the source assigns each key, read off the branches of the
  extractors. For the header: the gross mass is assigned when the line before the unit
  line passes \<open>isdigit()\<close>; the identity when a line of the window is a registration,
  and the nationality when the next non-empty line after the first such line is a
  two-letter code; the mode when the window has a candidate; the country of dispatch
  when a line of the window is a country-name line followed by a code, or a bare
  \<open>MK\<close> in the right context; the country of destination when a line of the window
  holds a country name and a code follows within four lines; the container indicator and
  the declaration place when a line of the window passes their tests.
\<close>

definition dispatch_name_line :: "pystr list \<Rightarrow> nat \<Rightarrow> bool" where
  "dispatch_name_line lines i =
     (contains SEVERNA_MAKEDONIJA (strip (lines ! i)) \<or>
      contains MAKEDONIJA (strip (lines ! i)) \<or>
      contains (asc ''MACEDONIA'') (strip (lines ! i)))"

definition dispatch_hit :: "runtime \<Rightarrow> pystr list \<Rightarrow> nat \<Rightarrow> nat \<Rightarrow> bool" where
  "dispatch_hit rt lines dsi i =
     (if dispatch_name_line lines i
      then snd (find_next_nonempty_line lines (i + 1) 3) \<noteq> [] \<and>
           two_upper (snd (find_next_nonempty_line lines (i + 1) 3))
      else strip (lines ! i) = asc ''MK'' \<and> i > dsi + 15 \<and>
           \<not> startswith (get_line_safe lines (int i - 1)) (asc ''MK'') \<and>
           \<not> py_isdigit rt (get_line_safe lines (int i - 1)))"

definition destination_hit :: "pystr list \<Rightarrow> nat \<Rightarrow> bool" where
  "destination_hit lines i =
     (list_ex (\<lambda>country. contains country (strip (lines ! i))) country_names \<and>
      list_ex (\<lambda>j. two_upper (strip (lines ! j)) \<and> strip (lines ! j) \<noteq> asc ''MK'')
        [i + 1..<min (length lines) (i + 5)])"

definition container_hit :: "pystr list \<Rightarrow> nat \<Rightarrow> bool" where
  "container_hit lines i =
     (strip (lines ! i) \<in> set [asc ''0'', asc ''1''] \<and>
      snd (find_next_nonempty_line lines (i + 1) 3) \<in> set delivery_terms)"

definition place_hit :: "runtime \<Rightarrow> pystr list \<Rightarrow> nat \<Rightarrow> bool" where
  "place_hit rt lines i =
     (n_digits rt 4 (strip (lines ! i)) \<and> place_name lines i \<noteq> [] \<and>
      length (place_name lines i) > 3 \<and> \<not> py_isdigit rt (place_name lines i))"

definition nationality_hit :: "runtime \<Rightarrow> pystr list \<Rightarrow> nat \<Rightarrow> bool" where
  "nationality_hit rt lines dsi =
     (case find (\<lambda>i. vehicle_pattern rt (strip (lines ! i))) (window lines dsi 50) of
        None \<Rightarrow> False
      | Some i \<Rightarrow>
          snd (find_next_nonempty_line lines (i + 1) 3) \<noteq> [] \<and>
          two_upper (snd (find_next_nonempty_line lines (i + 1) 3)))"

definition header_matched :: "runtime \<Rightarrow> pystr list \<Rightarrow> nat \<Rightarrow> pystr \<Rightarrow> bool" where
  "header_matched rt lines dsi k =
     (if k = asc ''TotGroMasHEA307''
      then (case mass_line lines of None \<Rightarrow> False | Some m \<Rightarrow> py_isdigit rt m)
      else if k = asc ''IdeOfMeaOfTraAtDHEA78''
      then list_ex (\<lambda>i. vehicle_pattern rt (strip (lines ! i))) (window lines dsi 50)
      else if k = asc ''NatOfMeaOfTraCroHEA87'' then nationality_hit rt lines dsi
      else if k = asc ''TraModAtBorHEA76''
      then list_ex (mode_candidate lines) (window lines dsi 50)
      else if k = asc ''CouOfDisCodHEA55''
      then list_ex (dispatch_hit rt lines dsi) (window lines dsi 50)
      else if k = asc ''CouOfDesCodHEA30''
      then list_ex (destination_hit lines) (window lines dsi 50)
      else if k = asc ''ConIndHEA96'' then list_ex (container_hit lines) (window lines dsi 50)
      else if k = asc ''DecPlaHEA394'' then list_ex (place_hit rt lines) (window lines dsi 50)
      else False)"

text \<open>
  For the sender: the postal code is always assigned; the tax number and the country
  when a line of the window is a tax number; the name when a non-empty line follows it
  within two lines; the street when the address line has a street marker, and the city
  when it also has a comma.
\<close>

definition sender_name_line :: "pystr list \<Rightarrow> nat \<Rightarrow> int \<times> pystr" where
  "sender_name_line lines i = find_next_nonempty_line lines (i + 1) 2"

definition sender_address_line :: "pystr list \<Rightarrow> nat \<Rightarrow> pystr" where
  "sender_address_line lines i =
     snd (find_next_nonempty_line lines (nat (fst (sender_name_line lines i) + 1)) 2)"

definition street_marker :: "runtime \<Rightarrow> pystr \<Rightarrow> bool" where
  "street_marker rt l =
     (l \<noteq> [] \<and> (contains ul l \<or> contains bul l \<or> contains (asc ''str.'') (lower rt l)))"

definition sender_matched :: "runtime \<Rightarrow> pystr list \<Rightarrow> nat \<Rightarrow> pystr \<Rightarrow> bool" where
  "sender_matched rt lines dsi k =
     (if k = asc ''PosCodEX123'' then True
      else (case find (\<lambda>i. tin_pattern rt (strip (lines ! i))) (window lines dsi 20) of
              None \<Rightarrow> False
            | Some i \<Rightarrow>
                k = asc ''TINEX159'' \<or> k = asc ''CouEX125'' \<or>
                (k = asc ''NamEX17'' \<and> snd (sender_name_line lines i) \<noteq> []) \<or>
                (k = asc ''StrAndNumEX122'' \<and> street_marker rt (sender_address_line lines i)) \<or>
                (k = asc ''CitEX124'' \<and> street_marker rt (sender_address_line lines i) \<and>
                 44 \<in> set (sender_address_line lines i))))"

text \<open>
  For the receiver: the tax number is always assigned (\<open>None\<close>); the country when the
  window has an anchor; street and city when the line two before the anchor has more
  than two characters, and the postal code when the postal pattern is found in it; the
  name when the line three before the anchor has more than five characters.
\<close>

definition receiver_address_ok :: "pystr list \<Rightarrow> nat \<Rightarrow> bool" where
  "receiver_address_ok lines i =
     (i \<ge> 2 \<and> strip (lines ! (i - 2)) \<noteq> [] \<and> length (strip (lines ! (i - 2))) > 2)"

definition receiver_matched :: "runtime \<Rightarrow> pystr list \<Rightarrow> nat \<Rightarrow> pystr \<Rightarrow> bool" where
  "receiver_matched rt lines dsi k =
     (if k = asc ''TINCE159'' then True
      else (case find (receiver_anchor rt lines) [dsi + 5..<min (length lines) (dsi + 30)] of
              None \<Rightarrow> False
            | Some i \<Rightarrow>
                k = asc ''CouCE125'' \<or>
                ((k = asc ''StrAndNumCE122'' \<or> k = asc ''CitCE124'') \<and>
                 receiver_address_ok lines i) \<or>
                (k = asc ''PosCodCE123'' \<and> receiver_address_ok lines i \<and>
                 postal_search rt (strip (lines ! (i - 2))) \<noteq> None) \<or>
                (k = asc ''NamCE17'' \<and> i \<ge> 3 \<and> strip (lines ! (i - 3)) \<noteq> [] \<and>
                 length (strip (lines ! (i - 3))) > 5)))"

text \<open>
  The values of an item that are initialised to \<open>None\<close>: the dangerous-goods code is
  never assigned, and the gross mass is assigned only a float.
\<close>

definition item_values :: "json \<Rightarrow> bool" where
  "item_values item =
     (json_get (asc ''UNDanGooCodGDI1'') item = Some JNull \<and>
      (case json_get (asc ''GroMasGDS46'') item of
         Some JNull \<Rightarrow> True
       | Some (JFloat f) \<Rightarrow> True
       | _ \<Rightarrow> False))"

text \<open>
  A section of what a run returns, as a dict (empty when the run ended in an error).
\<close>

definition result_dict :: "pystr \<Rightarrow> pyerror + json \<Rightarrow> pydict" where
  "result_dict k r = (case r of Inl e \<Rightarrow> [] | Inr v \<Rightarrow> section_dict k v)"

text \<open>
  Two documents of the same length that agree from line \<open>n\<close> on.
\<close>

definition same_from :: "nat \<Rightarrow> pystr list \<Rightarrow> pystr list \<Rightarrow> bool" where
  "same_from n ls ls' = (length ls = length ls' \<and> drop n ls = drop n ls')"

text \<open>
  A document of 82 lines without a landmark of the locator: a mass and the unit line at
  its start, a registration at line 80 and a two-letter code at line 81. The second
  document has the same lines from line 79 on and empty lines before.
\<close>

definition sample_document :: "pystr list" where
  "sample_document =
     asc ''1200'' # asc ''KGM'' # replicate 78 (asc ''abc'') @ [asc ''SK1234AB'', asc ''MK'']"

definition sample_document_blank :: "pystr list" where
  "sample_document_blank = replicate 79 [] @ [asc ''abc'', asc ''SK1234AB'', asc ''MK'']"

text \<open>
  The record of the first document: the mass of its first line, the registration and the
  code of its last two lines, and nothing else resolved.
\<close>

definition sample_record :: json where
  "sample_record =
     JDict [(asc ''HEAHEA'',
               JDict [(asc ''TotGroMasHEA307'', JInt 1200),
                      (asc ''IdeOfMeaOfTraAtDHEA78'', JStr (asc ''SK1234AB'')),
                      (asc ''NatOfMeaOfTraCroHEA87'', JStr (asc ''MK''))]),
            (asc ''TRAEXPEX1'', JDict [(asc ''PosCodEX123'', JNull)]),
            (asc ''TRACONCE1'', JDict [(asc ''TINCE159'', JNull)]),
            (asc ''SEAINFSLI'', JDict seal_info),
            (asc ''GOOITEGDS'', JList [create_empty_item])]"

section \<open>Comparator (compare\_with\_expected)\<close>

text \<open>
  \<open>compare_dict\<close> appends to two lists, \<open>differences\<close> and \<open>matches\<close>. The
  messages are kept by kind with the path they name. The recursion follows
  \<open>expected\<close>; what is done with \<open>actual\<close> depends on its Python type:
  \<^item> \<open>key not in actual\<close> is a key test on a dict, an element test on a list, a
    substring test on a string and a TypeError on anything else; \<open>actual[key]\<close> is a
    TypeError unless \<open>actual\<close> is a dict;
  \<^item> \<open>len(actual)\<close> and \<open>zip(actual, expected)\<close> work on a list, a dict (its keys)
    and a string (its characters) and are a TypeError on anything else;
  \<^item> \<open>actual != expected\<close> for a leaf \<open>expected\<close> compares numbers (bool, int,
    float) by value, with NaN different from everything, itself included.
\<close>

datatype difference =
    Missing pystr
  | LengthMismatch pystr nat nat
  | NotEqual pystr json json

type_synonym comparison = "difference list \<times> pystr list"

definition num_of :: "json \<Rightarrow> pyfloat option" where
  "num_of v =
     (case v of
        JBool b \<Rightarrow> Some (Fin (if b then 1 else 0))
      | JInt i \<Rightarrow> Some (Fin (of_int i))
      | JFloat f \<Rightarrow> Some f
      | _ \<Rightarrow> None)"

definition py_ne :: "json \<Rightarrow> json \<Rightarrow> bool" where
  "py_ne actual expected =
     (case (num_of actual, num_of expected) of
        (Some x, Some y) \<Rightarrow> x \<noteq> y \<or> x = NaN
      | (None, None) \<Rightarrow> actual \<noteq> expected
      | _ \<Rightarrow> True)"

definition py_iter :: "json \<Rightarrow> json list option" where
  "py_iter v =
     (case v of
        JList xs \<Rightarrow> Some xs
      | JDict d \<Rightarrow> Some (map (\<lambda>(k, x). JStr k) d)
      | JStr s \<Rightarrow> Some (map (\<lambda>c. JStr [c]) s)
      | _ \<Rightarrow> None)"

text \<open>\<open>key in actual\<close>: \<open>None\<close> is the TypeError.\<close>

definition py_in :: "pystr \<Rightarrow> json \<Rightarrow> bool option" where
  "py_in key v =
     (case v of
        JDict d \<Rightarrow> Some (map_of d key \<noteq> None)
      | JList xs \<Rightarrow> Some (JStr key \<in> set xs)
      | JStr s \<Rightarrow> Some (contains key s)
      | _ \<Rightarrow> None)"

definition key_path :: "pystr \<Rightarrow> pystr \<Rightarrow> pystr" where
  "key_path path key = (if path \<noteq> [] then path @ asc ''.'' @ key else key)"

definition index_path :: "pystr \<Rightarrow> nat \<Rightarrow> pystr" where
  "index_path path i = path @ asc ''['' @ str_nat i @ asc '']''"

fun compare_dict :: "pystr \<Rightarrow> json \<Rightarrow> json \<Rightarrow> comparison \<Rightarrow> pyerror + comparison"
  and compare_keys :: "pystr \<Rightarrow> json \<Rightarrow> (pystr \<times> json) list \<Rightarrow> comparison \<Rightarrow> pyerror + comparison"
  and compare_zip :: "pystr \<Rightarrow> nat \<Rightarrow> json list \<Rightarrow> json list \<Rightarrow> comparison \<Rightarrow> pyerror + comparison"
where
  "compare_dict path actual (JDict kvs) st = compare_keys path actual kvs st"
| "compare_dict path actual (JList es) st =
     (case py_iter actual of
        None \<Rightarrow> Inl TypeError
      | Some xs \<Rightarrow>
          compare_zip path 0 xs es
            (if length xs \<noteq> length es
             then (fst st @ [LengthMismatch path (length xs) (length es)], snd st)
             else st))"
| "compare_dict path actual JNull st =
     Inr (if py_ne actual JNull then (fst st @ [NotEqual path actual JNull], snd st)
          else (fst st, snd st @ [path]))"
| "compare_dict path actual (JBool b) st =
     Inr (if py_ne actual (JBool b) then (fst st @ [NotEqual path actual (JBool b)], snd st)
          else (fst st, snd st @ [path]))"
| "compare_dict path actual (JInt i) st =
     Inr (if py_ne actual (JInt i) then (fst st @ [NotEqual path actual (JInt i)], snd st)
          else (fst st, snd st @ [path]))"
| "compare_dict path actual (JFloat f) st =
     Inr (if py_ne actual (JFloat f) then (fst st @ [NotEqual path actual (JFloat f)], snd st)
          else (fst st, snd st @ [path]))"
| "compare_dict path actual (JStr s) st =
     Inr (if py_ne actual (JStr s) then (fst st @ [NotEqual path actual (JStr s)], snd st)
          else (fst st, snd st @ [path]))"
| "compare_keys path actual [] st = Inr st"
| "compare_keys path actual ((key, e) # rest) st =
     (case py_in key actual of
        None \<Rightarrow> Inl TypeError
      | Some False \<Rightarrow>
          compare_keys path actual rest (fst st @ [Missing (key_path path key)], snd st)
      | Some True \<Rightarrow>
          (case json_get key actual of
             None \<Rightarrow> Inl TypeError
           | Some a \<Rightarrow>
               (case compare_dict (key_path path key) a e st of
                  Inl err \<Rightarrow> Inl err
                | Inr st' \<Rightarrow> compare_keys path actual rest st')))"
| "compare_zip path i [] es st = Inr st"
| "compare_zip path i (a # xs) [] st = Inr st"
| "compare_zip path i (a # xs) (e # es) st =
     (case compare_dict (index_path path i) a e st of
        Inl err \<Rightarrow> Inl err
      | Inr st' \<Rightarrow> compare_zip path (Suc i) xs es st')"

text \<open>
  \<open>compare_with_expected\<close> starts from the empty path and empty lists; it prints the
  number of matches and returns whether there is no difference.
\<close>

definition compare_with_expected :: "json \<Rightarrow> json \<Rightarrow> pyerror + comparison" where
  "compare_with_expected actual expected = compare_dict [] actual expected ([], [])"

text \<open>
  The leaf fields of a record (every value that is neither a dict nor a list), the
  dicts whose keys are pairwise different, as the keys of a Python dict are, and the
  records without a NaN.
\<close>

fun leaves :: "json \<Rightarrow> nat"
  and leaves_list :: "json list \<Rightarrow> nat"
  and leaves_dict :: "(pystr \<times> json) list \<Rightarrow> nat"
where
  "leaves (JDict d) = leaves_dict d"
| "leaves (JList xs) = leaves_list xs"
| "leaves JNull = 1"
| "leaves (JBool b) = 1"
| "leaves (JInt i) = 1"
| "leaves (JFloat f) = 1"
| "leaves (JStr s) = 1"
| "leaves_list [] = 0"
| "leaves_list (x # xs) = leaves x + leaves_list xs"
| "leaves_dict [] = 0"
| "leaves_dict ((k, v) # d) = leaves v + leaves_dict d"

fun py_dicts :: "json \<Rightarrow> bool"
  and py_dicts_list :: "json list \<Rightarrow> bool"
  and py_dicts_dict :: "(pystr \<times> json) list \<Rightarrow> bool"
where
  "py_dicts (JDict d) = (distinct (map fst d) \<and> py_dicts_dict d)"
| "py_dicts (JList xs) = py_dicts_list xs"
| "py_dicts JNull = True"
| "py_dicts (JBool b) = True"
| "py_dicts (JInt i) = True"
| "py_dicts (JFloat f) = True"
| "py_dicts (JStr s) = True"
| "py_dicts_list [] = True"
| "py_dicts_list (x # xs) = (py_dicts x \<and> py_dicts_list xs)"
| "py_dicts_dict [] = True"
| "py_dicts_dict ((k, v) # d) = (py_dicts v \<and> py_dicts_dict d)"

fun no_nan :: "json \<Rightarrow> bool"
  and no_nan_list :: "json list \<Rightarrow> bool"
  and no_nan_dict :: "(pystr \<times> json) list \<Rightarrow> bool"
where
  "no_nan (JDict d) = no_nan_dict d"
| "no_nan (JList xs) = no_nan_list xs"
| "no_nan JNull = True"
| "no_nan (JBool b) = True"
| "no_nan (JInt i) = True"
| "no_nan (JFloat f) = (f \<noteq> NaN)"
| "no_nan (JStr s) = True"
| "no_nan_list [] = True"
| "no_nan_list (x # xs) = (no_nan x \<and> no_nan_list xs)"
| "no_nan_dict [] = True"
| "no_nan_dict ((k, v) # d) = (no_nan v \<and> no_nan_dict d)"

text \<open>
  A record agrees with itself when, from any path and any state of the two lists, the
  comparison of the record with itself ends without an error, adds no difference and adds
  one match per leaf.
\<close>

definition agrees :: "json \<Rightarrow> bool" where
  "agrees v =
     (\<forall>path st. \<exists>ms. compare_dict path v v st = Inr (fst st, snd st @ ms) \<and>
                        length ms = leaves v)"

text \<open>What is reported: the differences and the number of matches.\<close>

definition report :: "pyerror + comparison \<Rightarrow> pyerror + difference list \<times> nat" where
  "report r = (case r of Inl e \<Rightarrow> Inl e | Inr c \<Rightarrow> Inr (fst c, length (snd c)))"

text \<open>
  A record of the shape \<open>extract_all\<close> returns, for a document with one goods item
  whose mass line reads \<open>nan\<close>: \<open>float('nan')\<close> is a NaN.
\<close>

definition nan_declaration :: json where
  "nan_declaration =
     JDict [(asc ''HEAHEA'', JDict []),
            (asc ''TRAEXPEX1'', JDict [(asc ''PosCodEX123'', JNull)]),
            (asc ''TRACONCE1'', JDict [(asc ''TINCE159'', JNull)]),
            (asc ''SEAINFSLI'', JDict seal_info),
            (asc ''GOOITEGDS'',
               JList [JDict [(asc ''IteNumGDS7'', JStr (asc ''1'')),
                             (asc ''GroMasGDS46'', JFloat NaN),
                             (asc ''GooDesGDS23'', JStr []),
                             (asc ''UNDanGooCodGDI1'', JNull),
                             (asc ''COMCODGODITM'',
                                JDict [(asc ''ComNomCMD1'', JStr (asc ''12345678''))]),
                             (asc ''PACGS2'', JList []),
                             (asc ''PRODOCDC2'', JList [])]])]"

section \<open>An instance of the interpreter's tables\<close>

text \<open>
  The theorems hold for every \<open>runtime\<close>. The examples need one: this is CPython
  3.11 on the characters below 256 (decimal digits \<open>0\<close> to \<open>9\<close>; \<open>isdigit\<close> also
  true of the superscripts U+00B2, U+00B3 and U+00B9; the Latin-1 word characters and
  lower-case mapping), with \<open>float()\<close> given for \<open>nan\<close> and for strings of ASCII
  digits, and the default limit of 4300 digits. The examples use no other input.
\<close>

definition latin1_lower :: "pychar \<Rightarrow> pychar" where
  "latin1_lower c =
     (if (65 \<le> c \<and> c \<le> 90) \<or> (192 \<le> c \<and> c \<le> 214) \<or> (216 \<le> c \<and> c \<le> 222)
      then c + 32 else c)"

definition latin1_runtime :: runtime where
  "latin1_runtime =
     \<lparr> decimal_value = (\<lambda>c. if 48 \<le> c \<and> c \<le> 57 then Some (c - 48) else None),
       isdigit_char = (\<lambda>c. (48 \<le> c \<and> c \<le> 57) \<or> c = 178 \<or> c = 179 \<or> c = 185),
       isword_char =
         (\<lambda>c. (48 \<le> c \<and> c \<le> 57) \<or> (65 \<le> c \<and> c \<le> 90) \<or> c = 95 \<or> (97 \<le> c \<and> c \<le> 122) \<or>
              c = 170 \<or> c = 178 \<or> c = 179 \<or> c = 181 \<or> c = 185 \<or> c = 186 \<or>
              (188 \<le> c \<and> c \<le> 190) \<or> (192 \<le> c \<and> c \<le> 214) \<or> (216 \<le> c \<and> c \<le> 246) \<or>
              (248 \<le> c \<and> c \<le> 255)),
       lower_at = (\<lambda>s i. [latin1_lower (s ! i)]),
       ignorecase_eq = (\<lambda>l c. latin1_lower l = latin1_lower c),
       float_of_str =
         (\<lambda>s. if s = asc ''nan'' then Some NaN
               else if s \<noteq> [] \<and> list_all (\<lambda>c. 48 \<le> c \<and> c \<le> 57) s
               then Some (Fin (of_nat (foldl (\<lambda>a c. 10 * a + (c - 48)) 0 s)))
               else None),
       int_max_str_digits = 4300 \<rparr>"

section \<open>The classifier's decision\<close>

lemma indicators_of_empty:
  "customs_indicators (indicators_of rt []) = 0 \<and> standard_indicators (indicators_of rt []) = 0"
  by (simp add: indicators_of_def customs_indicators_def standard_indicators_def asc_def
      RBD_def RDB_def oznaki_i_broevi_def ispracac_izvoznik_def ispracac_izvoznik_sp_def
      tov_list_def tovaren_list_def lower_def re_search_def ref_at_def lrn_at_def rdb_at_def)

lemma detect_format_decide: "detect_format rt text = decide (indicators_of rt text)"
  using indicators_of_empty [of rt] by (simp add: detect_format_def decide_def)

text \<open>
  C3. For every text sample the classifier returns the customs layout exactly when the
  customs score is strictly greater than the standard score and at least 2, the standard
  layout exactly when the standard score is strictly greater than the customs score and
  at least 2, and \<open>unknown\<close> in every other case (ties, scores below 2, the empty
  sample).
\<close>

theorem detect_format_decision:
  "(detect_format rt text = CUSTOMS) =
     (standard_indicators (indicators_of rt text) < customs_indicators (indicators_of rt text) \<and>
      2 \<le> customs_indicators (indicators_of rt text)) \<and>
   (detect_format rt text = STANDARD) =
     (customs_indicators (indicators_of rt text) < standard_indicators (indicators_of rt text) \<and>
      2 \<le> standard_indicators (indicators_of rt text)) \<and>
   (detect_format rt text = UNKNOWN) =
     (\<not> (standard_indicators (indicators_of rt text) < customs_indicators (indicators_of rt text) \<and>
         2 \<le> customs_indicators (indicators_of rt text)) \<and>
      \<not> (customs_indicators (indicators_of rt text) < standard_indicators (indicators_of rt text) \<and>
         2 \<le> standard_indicators (indicators_of rt text)))"
  unfolding detect_format_decide by (simp add: decide_def)

lemma customs_added_scores:
  assumes "customs_added a b"
  shows "customs_indicators a \<le> customs_indicators b"
    and "standard_indicators b = standard_indicators a"
  using assms by (simp_all add: customs_added_def customs_indicators_def standard_indicators_def)

lemma standard_added_scores:
  assumes "standard_added a b"
  shows "standard_indicators a \<le> standard_indicators b"
    and "customs_indicators b = customs_indicators a"
  using assms by (simp_all add: standard_added_def customs_indicators_def standard_indicators_def)

lemma customs_added_decide:
  assumes "customs_added a b"
  shows "decide a = CUSTOMS \<Longrightarrow> decide b = CUSTOMS"
    and "decide b = STANDARD \<Longrightarrow> decide a = STANDARD"
  using customs_added_scores [OF assms]
  by (auto simp: decide_def split: if_splits)

lemma standard_added_decide:
  assumes "standard_added a b"
  shows "decide a = STANDARD \<Longrightarrow> decide b = STANDARD"
    and "decide b = CUSTOMS \<Longrightarrow> decide a = CUSTOMS"
  using standard_added_scores [OF assms]
  by (auto simp: decide_def split: if_splits)

text \<open>
  C7. For text samples \<open>t\<close> and \<open>t'\<close>, where \<open>t'\<close> matches the indicators of one
  layout that \<open>t\<close> matches and more of them, the indicators of the other layout being
  the same: that layout's score does not decrease, a decision for that layout stays, and
  a decision for the other layout is not new.
\<close>

theorem classifier_monotone:
  "(customs_added (indicators_of rt t) (indicators_of rt t') \<longrightarrow>
      customs_indicators (indicators_of rt t) \<le> customs_indicators (indicators_of rt t') \<and>
      (detect_format rt t = CUSTOMS \<longrightarrow> detect_format rt t' = CUSTOMS) \<and>
      (detect_format rt t' = STANDARD \<longrightarrow> detect_format rt t = STANDARD)) \<and>
   (standard_added (indicators_of rt t) (indicators_of rt t') \<longrightarrow>
      standard_indicators (indicators_of rt t) \<le> standard_indicators (indicators_of rt t') \<and>
      (detect_format rt t = STANDARD \<longrightarrow> detect_format rt t' = STANDARD) \<and>
      (detect_format rt t' = CUSTOMS \<longrightarrow> detect_format rt t = CUSTOMS))"
  unfolding detect_format_decide
  using customs_added_scores(1) customs_added_decide standard_added_scores(1)
    standard_added_decide
  by blast

lemmas detector_eval = asc_def indicators_of_def customs_indicators_def standard_indicators_def
  re_search_def lrn_at_def rdb_at_def ref_at_def latin1_runtime_def latin1_lower_def RBD_def
  RDB_def after_spaces_def digits_then_def is_decimal_def py_isspace_def
  oznaki_i_broevi_def ispracac_izvoznik_def ispracac_izvoznik_sp_def
  tov_list_def tovaren_list_def lower_def referenten_broj_def ref_tail_def

theorem classifier_monotone_witness:
  "customs_added (indicators_of latin1_runtime (asc ''x''))
     (indicators_of latin1_runtime (asc ''Consignor/Exporter'')) \<and>
   customs_indicators (indicators_of latin1_runtime (asc ''x'')) \<le>
     customs_indicators (indicators_of latin1_runtime (asc ''Consignor/Exporter'')) \<and>
   detect_format latin1_runtime (asc ''x'') = UNKNOWN \<and>
   detect_format latin1_runtime (asc ''Consignor/Exporter'') = CUSTOMS \<and>
   standard_added (indicators_of latin1_runtime (asc ''x''))
     (indicators_of latin1_runtime (asc ''LRN:24MK'')) \<and>
   standard_indicators (indicators_of latin1_runtime (asc ''x'')) \<le>
     standard_indicators (indicators_of latin1_runtime (asc ''LRN:24MK'')) \<and>
   detect_format latin1_runtime (asc ''LRN:24MK'') = STANDARD"
proof -
  have x: "indicators_of latin1_runtime (asc ''x'') =
      \<lparr>c_consignor = False, c_rbd = False, c_refnum = False, c_oznaki = False,
       s_ispracac = False, s_lrn = False, s_rdb = False, s_tovlist = False\<rparr>"
    by (simp add: detector_eval)
  have c: "indicators_of latin1_runtime (asc ''Consignor/Exporter'') =
      \<lparr>c_consignor = True, c_rbd = False, c_refnum = False, c_oznaki = False,
       s_ispracac = False, s_lrn = False, s_rdb = False, s_tovlist = False\<rparr>"
    by (simp add: detector_eval)
  have s: "indicators_of latin1_runtime (asc ''LRN:24MK'') =
      \<lparr>c_consignor = False, c_rbd = False, c_refnum = False, c_oznaki = False,
       s_ispracac = False, s_lrn = True, s_rdb = False, s_tovlist = False\<rparr>"
    by (simp add: detector_eval)
  have ca: "customs_added (indicators_of latin1_runtime (asc ''x''))
     (indicators_of latin1_runtime (asc ''Consignor/Exporter''))"
    unfolding x c by (simp add: customs_added_def)
  have sa: "standard_added (indicators_of latin1_runtime (asc ''x''))
     (indicators_of latin1_runtime (asc ''LRN:24MK''))"
    unfolding x s by (simp add: standard_added_def)
  have u: "detect_format latin1_runtime (asc ''x'') = UNKNOWN"
    unfolding detect_format_decide x by (simp add: decide_def customs_indicators_def standard_indicators_def)
  have d1: "detect_format latin1_runtime (asc ''Consignor/Exporter'') = CUSTOMS"
    unfolding detect_format_decide c by (simp add: decide_def customs_indicators_def standard_indicators_def)
  have d2: "detect_format latin1_runtime (asc ''LRN:24MK'') = STANDARD"
    unfolding detect_format_decide s by (simp add: decide_def customs_indicators_def standard_indicators_def)
  show ?thesis
    using ca sa u d1 d2
      classifier_monotone [of latin1_runtime "asc ''x''" "asc ''Consignor/Exporter''"]
      classifier_monotone [of latin1_runtime "asc ''x''" "asc ''LRN:24MK''"]
    by blast
qed

section \<open>Dictionaries\<close>

declare str_nat.simps [simp del]

lemma map_of_dict_set: "map_of (dict_set k v d) k' = (if k' = k then Some v else map_of d k')"
  by (induction d) auto

lemma dict_keys_dict_set:
  "fst ` set (dict_set k v d) = insert k (fst ` set d)"
proof (induction d)
  case Nil
  then show ?case by simp
next
  case (Cons p d)
  obtain k' v' where p: "p = (k', v')" by (cases p)
  show ?case
  proof (cases "k' = k")
    case True
    then show ?thesis by (simp add: p)
  next
    case False
    then show ?thesis using Cons.IH by (simp add: p insert_commute)
  qed
qed

lemma distinct_dict_set: "distinct (map fst d) \<Longrightarrow> distinct (map fst (dict_set k v d))"
proof (induction d)
  case Nil
  then show ?case by simp
next
  case (Cons p d)
  obtain k' v' where p: "p = (k', v')" by (cases p)
  show ?case
  proof (cases "k' = k")
    case True
    then show ?thesis using Cons.prems by (simp add: p)
  next
    case False
    then show ?thesis using Cons by (simp add: p dict_keys_dict_set)
  qed
qed

section \<open>Receiver tax number\<close>

text \<open>
  C10. After receiver extraction in the generic engine the receiver's tax number is
  \<open>None\<close>, whatever the lines and the section offset are: the assignment of line 410
  is made on every path, also after the loop recorded a tax number.
\<close>

theorem receiver_tin_null:
  "map_of (extract_traconce1 rt lines dsi) (asc ''TINCE159'') = Some JNull"
  by (simp add: extract_traconce1_def map_of_dict_set)

section \<open>Goods items: count and numbering\<close>

lemma build_items_numbers:
  "map (json_get (asc ''IteNumGDS7'')) (build_items rt lines n ps) =
     map (\<lambda>k. Some (JStr (str_nat k))) [n..<n + length ps]"
proof (induction ps arbitrary: n)
  case Nil
  then show ?case by simp
next
  case (Cons p ps)
  obtain ci code where p: "p = (ci, code)" by (cases p)
  have "json_get (asc ''IteNumGDS7'') (build_item rt lines n ci code x) = Some (JStr (str_nat n))" for x
    by (simp add: build_item_def json_get_def Let_def)
  moreover have "[n..<n + length (p # ps)] = n # [Suc n..<Suc n + length ps]"
    by (simp add: upt_conv_Cons del: upt_Suc)
  ultimately show ?case using Cons.IH [of "Suc n"] by (simp add: p del: upt_Suc)
qed

lemma build_items_codes:
  "map (json_get (asc ''COMCODGODITM'')) (build_items rt lines n ps) =
     map (\<lambda>p. Some (JDict [(asc ''ComNomCMD1'', JStr (snd p))])) ps"
proof (induction ps arbitrary: n)
  case Nil
  then show ?case by simp
next
  case (Cons p ps)
  obtain ci code where p: "p = (ci, code)" by (cases p)
  have "json_get (asc ''COMCODGODITM'') (build_item rt lines n ci code x)
        = Some (JDict [(asc ''ComNomCMD1'', JStr code)])" for x
    by (simp add: build_item_def json_get_def Let_def asc_def)
  then show ?case using Cons.IH [of "Suc n"] by (simp add: p)
qed

text \<open>
  C1, as the code has it. The landmarks are the lines that strip to eight decimal digits
  from line \<open>max(data_start_index, 100)\<close> on. The segmenter returns one item per
  landmark, numbered \<open>1\<close> to \<open>N\<close> and holding the landmarks' codes in document
  order; with no landmark it returns the one placeholder item, which is numbered \<open>1\<close>.
\<close>

theorem item_count_and_numbers:
  "length (extract_gooitegds rt lines dsi) =
     (if landmark_lines rt lines (max dsi 100) = [] then 1
      else length (landmark_lines rt lines (max dsi 100))) \<and>
   map (json_get (asc ''IteNumGDS7'')) (extract_gooitegds rt lines dsi) =
     map (\<lambda>k. Some (JStr (str_nat k)))
       [1..<Suc (if landmark_lines rt lines (max dsi 100) = [] then 1
                 else length (landmark_lines rt lines (max dsi 100)))] \<and>
   (if landmark_lines rt lines (max dsi 100) = []
    then extract_gooitegds rt lines dsi = [create_empty_item]
    else map (json_get (asc ''COMCODGODITM'')) (extract_gooitegds rt lines dsi) =
           map (\<lambda>i. Some (JDict [(asc ''ComNomCMD1'', JStr (strip (lines ! i)))]))
             (landmark_lines rt lines (max dsi 100)))"
proof (cases "landmark_lines rt lines (max dsi 100) = []")
  case True
  then have e: "extract_gooitegds rt lines dsi = [create_empty_item]"
    by (simp add: extract_gooitegds_def commodity_positions_def)
  have "json_get (asc ''IteNumGDS7'') create_empty_item = Some (JStr (str_nat 1))"
    by (simp add: create_empty_item_def json_get_def str_nat.simps asc_def)
  then show ?thesis using True e by simp
next
  case False
  then have e: "extract_gooitegds rt lines dsi =
      build_items rt lines 1 (commodity_positions rt lines dsi)"
    by (simp add: extract_gooitegds_def commodity_positions_def)
  have l: "length (commodity_positions rt lines dsi) = length (landmark_lines rt lines (max dsi 100))"
    by (simp add: commodity_positions_def)
  have n: "length (build_items rt lines k ps) = length ps" for ps k
    by (induction ps arbitrary: k) auto
  show ?thesis
    using False
    by (simp add: e n l build_items_numbers build_items_codes commodity_positions_def
        comp_def del: upt_Suc)
qed



section \<open>Reference documents\<close>


lemma doc_entry_pair:
  "doc_pairs (JDict [(asc ''DocTypDC21'', JStr t), (asc ''DocRefDC23'', JStr r)] # ds) =
     (Some (JStr t), Some (JStr r)) # doc_pairs ds"
  by (simp add: doc_pairs_def json_get_def asc_def)

lemma doc_pairs_Nil: "doc_pairs [] = []"
  by (simp add: doc_pairs_def)

lemma dedup_docs_mem:
  "p \<in> set (doc_pairs (dedup_docs ms seen)) \<Longrightarrow>
   \<exists>t r pos. p = (Some (JStr t), Some (JStr r)) \<and> (t, r, pos) \<in> set ms \<and> (t, r) \<notin> set seen"
proof (induction ms seen rule: dedup_docs.induct)
  case (1 seen)
  then show ?case by (simp add: doc_pairs_Nil)
next
  case (2 doc_type doc_ref pos rest seen)
  show ?case
  proof (cases "doc_type = asc ''5007''")
    case True
    then have "p \<in> set (doc_pairs (dedup_docs rest seen))" using 2(4) by simp
    from 2(1) [OF True this] show ?thesis by (metis list.set_intros(2))
  next
    case a: False
    show ?thesis
    proof (cases "(doc_type, doc_ref) \<in> set seen")
      case True
      then have "p \<in> set (doc_pairs (dedup_docs rest seen))" using a 2(4) by simp
      from 2(3) [OF a _ this] True show ?thesis by (metis list.set_intros(2))
    next
      case False
      then have "p = (Some (JStr doc_type), Some (JStr doc_ref)) \<or>
          p \<in> set (doc_pairs (dedup_docs rest ((doc_type, doc_ref) # seen)))"
        using a 2(4) by (simp add: doc_entry_pair)
      then show ?thesis
      proof
        assume "p = (Some (JStr doc_type), Some (JStr doc_ref))"
        then show ?thesis using False by (metis list.set_intros(1))
      next
        assume "p \<in> set (doc_pairs (dedup_docs rest ((doc_type, doc_ref) # seen)))"
        from 2(2) [OF a False this] show ?thesis
          by (metis list.set_intros(2))
      qed
    qed
  qed
qed

lemma dedup_docs_distinct: "distinct (doc_pairs (dedup_docs ms seen))"
proof (induction ms seen rule: dedup_docs.induct)
  case (1 seen)
  then show ?case by (simp add: doc_pairs_Nil)
next
  case (2 doc_type doc_ref pos rest seen)
  show ?case
  proof (cases "doc_type = asc ''5007''")
    case True
    then show ?thesis using 2(1) by simp
  next
    case a: False
    show ?thesis
    proof (cases "(doc_type, doc_ref) \<in> set seen")
      case True
      then show ?thesis using a 2(3) by simp
    next
      case False
      have "(Some (JStr doc_type), Some (JStr doc_ref)) \<notin>
          set (doc_pairs (dedup_docs rest ((doc_type, doc_ref) # seen)))"
      proof
        assume "(Some (JStr doc_type), Some (JStr doc_ref)) \<in>
          set (doc_pairs (dedup_docs rest ((doc_type, doc_ref) # seen)))"
        from dedup_docs_mem [OF this] show False by auto
      qed
      then show ?thesis using a False 2(2) by (simp add: doc_entry_pair)
    qed
  qed
qed


lemma previous_documents_ok:
  "distinct (doc_pairs (previous_documents rt lines)) \<and>
   list_all (known_type doc_types) (doc_pairs (previous_documents rt lines))"
proof -
  define found where "found = doc_finditer rt 0 (join_space lines)"
  define ms where "ms = sort_key (\<lambda>(doc_type, doc_ref, pos). pos)
          (filter (\<lambda>(doc_type, doc_ref, pos). doc_type \<in> set doc_types) found)"
  have p: "previous_documents rt lines = dedup_docs ms []"
    by (simp only: previous_documents_def ms_def found_def)
  have t: "t \<in> set doc_types" if "(t, r, pos) \<in> set ms" for t r pos
  proof -
    from that have "(t, r, pos) \<in> set (filter (\<lambda>(doc_type, doc_ref, pos). doc_type \<in> set doc_types) found)"
      by (simp only: ms_def set_sort)
    then show ?thesis by (simp only: set_filter mem_Collect_eq case_prod_conv)
  qed
  have k: "known_type doc_types p" if "p \<in> set (doc_pairs (dedup_docs ms []))" for p
  proof -
    from dedup_docs_mem [OF that] obtain t r pos
      where e: "p = (Some (JStr t), Some (JStr r))" and m: "(t, r, pos) \<in> set ms" by blast
    have "t \<in> set doc_types" using t [OF m] .
    then have "Some (JStr t) \<in> set (map (\<lambda>t. Some (JStr t)) doc_types)"
      by (simp only: set_map) (rule imageI)
    then show ?thesis unfolding known_type_def e by (simp only: fst_conv)
  qed
  have "list_all (known_type doc_types) (doc_pairs (dedup_docs ms []))"
    unfolding list_all_iff using k by blast
  then show ?thesis
    unfolding p using dedup_docs_distinct [of ms "[]"] by blast
qed

lemma build_item_documents:
  "item_documents (build_item rt lines n ci code nci) =
     (if n = 1 then previous_documents rt lines else [])"
  by (simp add: build_item_def item_documents_def json_get_def Let_def asc_def)

lemma build_items_documents:
  "list_all (\<lambda>item. distinct (doc_pairs (item_documents item)) \<and>
                     list_all (known_type doc_types) (doc_pairs (item_documents item)))
     (build_items rt lines n ps)"
proof (induction ps arbitrary: n)
  case Nil
  then show ?case by simp
next
  case (Cons p ps)
  obtain ci code where p: "p = (ci, code)" by (cases p)
  show ?case using Cons.IH [of "Suc n"] previous_documents_ok [of rt lines]
    by (simp add: p build_item_documents doc_pairs_Nil)
qed

lemma customs_documents_mem:
  "p \<in> set (doc_pairs (customs_documents ms found)) \<Longrightarrow>
   \<exists>t r. p = (Some (JStr t), Some (JStr r)) \<and> t @ asc ''-'' @ r \<notin> set found \<and>
          t \<in> set customs_doc_types"
proof (induction ms found rule: customs_documents.induct)
  case (1 found)
  then show ?case by (simp add: doc_pairs_Nil)
next
  case (2 doc_type doc_ref rest found)
  show ?case
  proof (cases "doc_type @ asc ''-'' @ doc_ref \<notin> set found \<and> doc_type \<in> set customs_doc_types")
    case True
    then have "p = (Some (JStr doc_type), Some (JStr doc_ref)) \<or>
        p \<in> set (doc_pairs (customs_documents rest ((doc_type @ asc ''-'' @ doc_ref) # found)))"
      using 2(3) by (simp add: doc_entry_pair)
    then show ?thesis
    proof
      assume "p = (Some (JStr doc_type), Some (JStr doc_ref))"
      then show ?thesis using True by blast
    next
      assume "p \<in> set (doc_pairs (customs_documents rest ((doc_type @ asc ''-'' @ doc_ref) # found)))"
      from 2(1) [OF True this] show ?thesis by auto
    qed
  next
    case False
    then have "p \<in> set (doc_pairs (customs_documents rest found))" using 2(3) by auto
    from 2(2) [OF False this] show ?thesis .
  qed
qed

lemma customs_documents_distinct: "distinct (doc_pairs (customs_documents ms found))"
proof (induction ms found rule: customs_documents.induct)
  case (1 found)
  then show ?case by (simp add: doc_pairs_Nil)
next
  case (2 doc_type doc_ref rest found)
  show ?case
  proof (cases "doc_type @ asc ''-'' @ doc_ref \<notin> set found \<and> doc_type \<in> set customs_doc_types")
    case True
    have "(Some (JStr doc_type), Some (JStr doc_ref)) \<notin>
        set (doc_pairs (customs_documents rest ((doc_type @ asc ''-'' @ doc_ref) # found)))"
    proof
      assume "(Some (JStr doc_type), Some (JStr doc_ref)) \<in>
        set (doc_pairs (customs_documents rest ((doc_type @ asc ''-'' @ doc_ref) # found)))"
      from customs_documents_mem [OF this] show False by auto
    qed
    then show ?thesis using True 2(1) by (simp add: doc_entry_pair)
  next
    case False
    then show ?thesis using 2(2) by auto
  qed
qed

text \<open>
  C5. In every item the generic engine returns, no pair of document type and reference
  occurs twice and every recorded type is in the vocabulary of line 502; the same holds
  for what the customs engine records from any sequence of matches, with the vocabulary
  of its line 515.
\<close>

theorem documents_deduplicated:
  "list_all (\<lambda>item. distinct (doc_pairs (item_documents item)) \<and>
                     list_all (known_type doc_types) (doc_pairs (item_documents item)))
     (extract_gooitegds rt lines dsi) \<and>
   distinct (doc_pairs (customs_documents ms [])) \<and>
   list_all (known_type customs_doc_types) (doc_pairs (customs_documents ms []))"
proof -
  have "item_documents create_empty_item = []"
    by (simp add: create_empty_item_def item_documents_def json_get_def asc_def)
  then have g: "list_all (\<lambda>item. distinct (doc_pairs (item_documents item)) \<and>
                     list_all (known_type doc_types) (doc_pairs (item_documents item)))
     (extract_gooitegds rt lines dsi)"
    using build_items_documents [of rt lines 1 "commodity_positions rt lines dsi"]
    by (simp add: extract_gooitegds_def doc_pairs_Nil)
  have "known_type customs_doc_types p" if "p \<in> set (doc_pairs (customs_documents ms []))" for p
    using customs_documents_mem [OF that] by (auto simp: known_type_def)
  then show ?thesis
    using g customs_documents_distinct [of ms "[]"] by (simp add: list_all_iff)
qed


section \<open>Examples: evaluation on concrete lines\<close>


lemma find_upt_first: "P a \<Longrightarrow> a < b \<Longrightarrow> find P [a..<b] = Some a"
  by (simp add: upt_conv_Cons)

lemma strip_asc_examples:
  "strip (asc ''EXMK'') = asc ''EXMK''" "strip (asc ''12345678'') = asc ''12345678''"
  "strip (asc ''87654321'') = asc ''87654321''"
  by (simp_all add: asc_def strip_def py_isspace_def)

lemma decl_code_line_EXMK: "decl_code_line rt (asc ''EXMK'')"
  unfolding decl_code_line_def strip_asc_examples
  by (simp add: decl_code_def upper_az_def asc_def)

text \<open>
  The claim C1 counts the landmarks from the section offset. In a document whose first
  line is the code line \<open>EXMK\<close> the offset is 0; two landmarks follow it, and the
  segmenter, which searches from line 100, returns the placeholder alone.
\<close>

theorem item_count_counterexample:
  "find_data_section latin1_runtime [asc ''EXMK'', asc ''12345678'', asc ''87654321''] = 0 \<and>
   landmark_lines latin1_runtime [asc ''EXMK'', asc ''12345678'', asc ''87654321''] 0 = [1, 2] \<and>
   extract_gooitegds latin1_runtime [asc ''EXMK'', asc ''12345678'', asc ''87654321''] 0 =
     [create_empty_item]"
proof -
  let ?L = "[asc ''EXMK'', asc ''12345678'', asc ''87654321'']"
  have "find (\<lambda>i. decl_code_line latin1_runtime (?L ! i)) [0..<length ?L] = Some 0"
    by (rule find_upt_first) (simp_all add: decl_code_line_EXMK)
  then have f: "find_data_section latin1_runtime ?L = 0"
    by (simp only: find_data_section_def option.case)
  have u: "[0..<3] = [0, 1, 2::nat]" by (simp add: upt_rec)
  have d: "n_digits latin1_runtime 8 (asc ''12345678'')" "n_digits latin1_runtime 8 (asc ''87654321'')"
    "\<not> n_digits latin1_runtime 8 (asc ''EXMK'')"
    by (simp_all add: n_digits_def asc_def is_decimal_def latin1_runtime_def)
  have l: "landmark_lines latin1_runtime [asc ''EXMK'', asc ''12345678'', asc ''87654321''] 0 = [1, 2]"
    by (simp add: landmark_lines_def u strip_asc_examples d)
  have e: "extract_gooitegds latin1_runtime [asc ''EXMK'', asc ''12345678'', asc ''87654321''] 0 =
     [create_empty_item]"
    by (simp add: extract_gooitegds_def commodity_positions_def landmark_lines_def)
  show ?thesis using f l e by simp
qed



section \<open>Comparing a record with itself\<close>

lemma agrees_leaf:
  "agrees JNull" "agrees (JBool b)" "agrees (JInt i)" "agrees (JStr s)"
  "f \<noteq> NaN \<Longrightarrow> agrees (JFloat f)"
  by (simp_all add: agrees_def py_ne_def num_of_def)

lemma compare_zip_self:
  assumes "\<And>x. x \<in> set xs \<Longrightarrow> agrees x"
  shows "\<exists>ms. compare_zip path i xs xs st = Inr (fst st, snd st @ ms) \<and>
              length ms = leaves_list xs"
  using assms
proof (induction xs arbitrary: i st)
  case Nil
  then show ?case by simp
next
  case (Cons x xs)
  from Cons.prems have "agrees x" by simp
  then obtain m1 where m1: "compare_dict (index_path path i) x x st = Inr (fst st, snd st @ m1)"
    "length m1 = leaves x" unfolding agrees_def by blast
  from Cons.IH [of "Suc i" "(fst st, snd st @ m1)"] Cons.prems
  obtain m2 where m2: "compare_zip path (Suc i) xs xs (fst st, snd st @ m1) =
      Inr (fst st, (snd st @ m1) @ m2)" "length m2 = leaves_list xs" by auto
  show ?case using m1 m2 by (intro exI [of _ "m1 @ m2"]) simp
qed

lemma compare_keys_self:
  assumes "\<And>k e. (k, e) \<in> set rest \<Longrightarrow> map_of d k = Some e \<and> agrees e"
  shows "\<exists>ms. compare_keys path (JDict d) rest st = Inr (fst st, snd st @ ms) \<and>
              length ms = leaves_dict rest"
  using assms
proof (induction rest arbitrary: st)
  case Nil
  then show ?case by simp
next
  case (Cons p rest)
  obtain k e where p: "p = (k, e)" by (cases p)
  from Cons.prems [of k e] have ke: "map_of d k = Some e" "agrees e" by (simp_all add: p)
  then obtain m1 where m1: "compare_dict (key_path path k) e e st = Inr (fst st, snd st @ m1)"
    "length m1 = leaves e" unfolding agrees_def by blast
  from Cons.IH [of "(fst st, snd st @ m1)"] Cons.prems
  obtain m2 where m2: "compare_keys path (JDict d) rest (fst st, snd st @ m1) =
      Inr (fst st, (snd st @ m1) @ m2)" "length m2 = leaves_dict rest" by auto
  show ?case using ke m1 m2
    by (intro exI [of _ "m1 @ m2"]) (simp add: p py_in_def json_get_def)
qed

lemma py_dicts_dict_mem: "py_dicts_dict d \<Longrightarrow> (k, e) \<in> set d \<Longrightarrow> py_dicts e"
  by (induction d) auto

lemma no_nan_dict_mem: "no_nan_dict d \<Longrightarrow> (k, e) \<in> set d \<Longrightarrow> no_nan e"
  by (induction d) auto

lemma py_dicts_list_mem: "py_dicts_list xs \<Longrightarrow> x \<in> set xs \<Longrightarrow> py_dicts x"
  by (induction xs) auto

lemma no_nan_list_mem: "no_nan_list xs \<Longrightarrow> x \<in> set xs \<Longrightarrow> no_nan x"
  by (induction xs) auto

lemma compare_self: "py_dicts v \<Longrightarrow> no_nan v \<Longrightarrow> agrees v"
proof (induction v)
  case (JList xs)
  have a: "agrees x" if "x \<in> set xs" for x
    using JList that py_dicts_list_mem no_nan_list_mem by auto
  show ?case unfolding agrees_def
  proof (intro allI)
    fix path st
    from compare_zip_self [of xs path 0 st] a
    show "\<exists>ms. compare_dict path (JList xs) (JList xs) st = Inr (fst st, snd st @ ms) \<and>
        length ms = leaves (JList xs)"
      by (simp add: py_iter_def)
  qed
next
  case (JDict d)
  have a: "map_of d k = Some e \<and> agrees e" if "(k, e) \<in> set d" for k e
  proof -
    have "agrees e" using JDict.IH [of "(k, e)" e] that JDict.prems
        py_dicts_dict_mem [of d k e] no_nan_dict_mem [of d k e] by simp
    moreover have "map_of d k = Some e" using JDict.prems(1) that by simp
    ultimately show ?thesis by simp
  qed
  show ?case unfolding agrees_def
  proof (intro allI)
    fix path st
    from compare_keys_self [of d d path st] a
    show "\<exists>ms. compare_dict path (JDict d) (JDict d) st = Inr (fst st, snd st @ ms) \<and>
        length ms = leaves (JDict d)"
      by simp
  qed
qed (simp_all add: agrees_leaf)

text \<open>
  C4, as the code has it. For every record whose dicts have pairwise different keys and
  which holds no NaN, the comparison of the record with itself reports no difference and
  as many matches as the record has leaves.
\<close>

theorem compare_with_itself:
  "py_dicts v \<Longrightarrow> no_nan v \<Longrightarrow> report (compare_with_expected v v) = Inr ([], leaves v)"
proof -
  assume "py_dicts v" "no_nan v"
  then have "agrees v" by (rule compare_self)
  then obtain ms where "compare_dict [] v v ([], []) = Inr ([], ms)" "length ms = leaves v"
    unfolding agrees_def by fastforce
  then show ?thesis by (simp add: report_def compare_with_expected_def)
qed

theorem compare_with_itself_witness:
  "py_dicts create_empty_item \<and> no_nan create_empty_item \<and>
   report (compare_with_expected create_empty_item create_empty_item) = Inr ([], 5)"
proof -
  have p: "py_dicts create_empty_item" by (simp add: create_empty_item_def asc_def)
  have n: "no_nan create_empty_item" by (simp add: create_empty_item_def)
  have l: "leaves create_empty_item = 5" by (simp add: create_empty_item_def)
  show ?thesis using p n l compare_with_itself [OF p n] by simp
qed

text \<open>
  The claim C4 is about every record. A NaN differs from itself under \<open>!=\<close>: the
  record with a NaN mass, compared with itself, has one difference and eight matches for
  its nine leaves. The generic engine produces such a mass from a line \<open>nan\<close>.
\<close>

theorem compare_with_itself_counterexample:
  "report (compare_with_expected nan_declaration nan_declaration) =
     Inr ([NotEqual (asc ''GOOITEGDS[0].GroMasGDS46'') (JFloat NaN) (JFloat NaN)], 8) \<and>
   leaves nan_declaration = 9 \<and> py_dicts nan_declaration \<and>
   gross_mass_at latin1_runtime [asc ''PX'', asc ''1'', asc ''nan''] 0 = JFloat NaN"
proof -
  have c: "report (compare_with_expected nan_declaration nan_declaration) =
     Inr ([NotEqual (asc ''GOOITEGDS[0].GroMasGDS46'') (JFloat NaN) (JFloat NaN)], 8)"
    by (simp add: report_def compare_with_expected_def nan_declaration_def seal_info_def
        py_in_def json_get_def key_path_def index_path_def py_iter_def py_ne_def num_of_def
        asc_def str_nat.simps)
  have l: "leaves nan_declaration = 9" by (simp add: nan_declaration_def seal_info_def)
  have p: "py_dicts nan_declaration" by (simp add: nan_declaration_def seal_info_def asc_def)
  have g: "gross_mass_at latin1_runtime [asc ''PX'', asc ''1'', asc ''nan''] 0 = JFloat NaN"
    by (simp add: gross_mass_at_def find_next_nonempty_line_def window_def nonempty_line_def
        markers_def strip_def py_isspace_def asc_def latin1_runtime_def upt_rec)
  show ?thesis using c l p g by simp
qed



section \<open>Total gross mass\<close>

lemma find_upt_second: "\<not> P a \<Longrightarrow> P (Suc a) \<Longrightarrow> Suc a < b \<Longrightarrow> find P [a..<b] = Some (Suc a)"
  by (simp add: upt_conv_Cons)

lemma strip_KGM: "strip (asc ''KGM'') = asc ''KGM''"
  by (simp add: asc_def strip_def py_isspace_def)

lemma mass_line_second:
  "strip l \<noteq> asc ''KGM'' \<Longrightarrow> mass_line [l, asc ''KGM''] = Some (strip l)"
proof -
  assume n: "strip l \<noteq> asc ''KGM''"
  have "find (\<lambda>i. strip ([l, asc ''KGM''] ! i) = asc ''KGM'') [0..<length [l, asc ''KGM'']] = Some (Suc 0)"
    by (rule find_upt_second) (simp_all add: n strip_KGM)
  then show ?thesis by (simp add: mass_line_def get_line_safe_def)
qed

text \<open>
  C6 at the line \<open>12\<close> followed by a superscript two (U+00B2), before the unit line:
  \<open>isdigit()\<close> accepts the line, \<open>int()\<close> refuses it, and the ValueError ends the
  run. The line \<open>1200\<close> before the unit line gives the mass 1200.
\<close>

theorem gross_mass_superscript_digit:
  "total_gross_mass latin1_runtime [[49, 50, 178], asc ''KGM''] [] = Inl ValueError \<and>
   extract_all latin1_runtime [[49, 50, 178], asc ''KGM''] = Inl ValueError \<and>
   total_gross_mass latin1_runtime [asc ''1200'', asc ''KGM''] [] =
     Inr [(asc ''TotGroMasHEA307'', JInt 1200)]"
proof -
  have s: "strip [49, 50, 178] = [49, 50, 178]" "strip (asc ''1200'') = asc ''1200''"
    by (simp_all add: asc_def strip_def py_isspace_def)
  have m: "mass_line [[49, 50, 178], asc ''KGM''] = Some [49, 50, 178]"
    using mass_line_second [of "[49, 50, 178]"] by (simp add: s asc_def)
  have m2: "mass_line [asc ''1200'', asc ''KGM''] = Some (asc ''1200'')"
    using mass_line_second [of "asc ''1200''"] by (simp add: s) (simp add: asc_def)
  have t: "total_gross_mass latin1_runtime [[49, 50, 178], asc ''KGM''] [] = Inl ValueError"
    by (simp add: total_gross_mass_def m py_isdigit_def py_int_def is_decimal_def
        latin1_runtime_def)
  have t2: "total_gross_mass latin1_runtime [asc ''1200'', asc ''KGM''] [] =
     Inr [(asc ''TotGroMasHEA307'', JInt 1200)]"
    unfolding total_gross_mass_def m2
    by (simp add: py_isdigit_def py_int_def is_decimal_def latin1_runtime_def asc_def)
  show ?thesis using t t2 by (simp add: extract_all_def extract_heahea_def)
qed



section \<open>What the header searches write\<close>

lemma never_null_dict_set:
  "never_null d \<Longrightarrow> v \<noteq> JNull \<Longrightarrow> never_null (dict_set k v d)"
  by (induction d) (auto simp: never_null_def)

lemma transport_identity_frame:
  "k \<noteq> asc ''IdeOfMeaOfTraAtDHEA78'' \<Longrightarrow> k \<noteq> asc ''NatOfMeaOfTraCroHEA87'' \<Longrightarrow>
   map_of (transport_identity rt lines dsi d) k = map_of d k"
  by (simp add: transport_identity_def map_of_dict_set Let_def split: option.splits)

lemma transport_mode_frame:
  "k \<noteq> asc ''TraModAtBorHEA76'' \<Longrightarrow> map_of (transport_mode lines dsi d) k = map_of d k"
  by (simp add: transport_mode_def map_of_dict_set Let_def)

lemma dispatch_loop_frame:
  "k \<noteq> asc ''CouOfDisCodHEA55'' \<Longrightarrow> map_of (dispatch_loop rt lines dsi is d) k = map_of d k"
  by (induction "is" arbitrary: d) (simp_all add: map_of_dict_set)

lemma destination_code_frame:
  "k \<noteq> asc ''CouOfDesCodHEA30'' \<Longrightarrow> map_of (destination_code lines i d) k = map_of d k"
  by (simp add: destination_code_def map_of_dict_set split: option.splits)

lemma destination_names_frame:
  "k \<noteq> asc ''CouOfDesCodHEA30'' \<Longrightarrow> map_of (destination_names lines i cs d) k = map_of d k"
  by (induction cs arbitrary: d) (simp_all add: destination_code_frame)

lemma destination_loop_frame:
  "k \<noteq> asc ''CouOfDesCodHEA30'' \<Longrightarrow> map_of (destination_loop lines is d) k = map_of d k"
  by (induction "is" arbitrary: d) (simp_all add: destination_names_frame)

lemma container_indicator_frame:
  "k \<noteq> asc ''ConIndHEA96'' \<Longrightarrow> map_of (container_indicator lines dsi d) k = map_of d k"
  by (simp add: container_indicator_def map_of_dict_set split: option.splits)

lemma declaration_place_frame:
  "k \<noteq> asc ''DecPlaHEA394'' \<Longrightarrow> map_of (declaration_place rt lines dsi d) k = map_of d k"
  by (simp add: declaration_place_def map_of_dict_set split: option.splits)

lemma header_after_mass_mass:
  "map_of (header_after_mass rt lines dsi d) (asc ''TotGroMasHEA307'') =
     map_of d (asc ''TotGroMasHEA307'')"
proof -
  have "asc ''TotGroMasHEA307'' \<noteq> asc ''IdeOfMeaOfTraAtDHEA78''"
    "asc ''TotGroMasHEA307'' \<noteq> asc ''NatOfMeaOfTraCroHEA87''"
    "asc ''TotGroMasHEA307'' \<noteq> asc ''TraModAtBorHEA76''"
    "asc ''TotGroMasHEA307'' \<noteq> asc ''CouOfDisCodHEA55''"
    "asc ''TotGroMasHEA307'' \<noteq> asc ''CouOfDesCodHEA30''"
    "asc ''TotGroMasHEA307'' \<noteq> asc ''ConIndHEA96''"
    "asc ''TotGroMasHEA307'' \<noteq> asc ''DecPlaHEA394''"
    by (simp_all add: asc_def)
  then show ?thesis
    by (simp add: header_after_mass_def declaration_place_frame container_indicator_frame
        destination_country_def destination_loop_frame dispatch_country_def dispatch_loop_frame
        transport_mode_frame transport_identity_frame)
qed

lemma transport_identity_never_null:
  "never_null d \<Longrightarrow> never_null (transport_identity rt lines dsi d)"
  by (simp add: transport_identity_def never_null_dict_set Let_def split: option.splits)

lemma transport_mode_never_null: "never_null d \<Longrightarrow> never_null (transport_mode lines dsi d)"
  by (simp add: transport_mode_def never_null_dict_set Let_def)

lemma dispatch_loop_never_null:
  "never_null d \<Longrightarrow> never_null (dispatch_loop rt lines dsi is d)"
  by (induction "is" arbitrary: d) (simp_all add: never_null_dict_set)

lemma destination_code_never_null: "never_null d \<Longrightarrow> never_null (destination_code lines i d)"
  by (simp add: destination_code_def never_null_dict_set split: option.splits)

lemma destination_names_never_null:
  "never_null d \<Longrightarrow> never_null (destination_names lines i cs d)"
  by (induction cs arbitrary: d) (simp_all add: destination_code_never_null)

lemma destination_loop_never_null:
  "never_null d \<Longrightarrow> never_null (destination_loop lines is d)"
  by (induction "is" arbitrary: d) (simp_all add: destination_names_never_null)

lemma container_indicator_never_null:
  "never_null d \<Longrightarrow> never_null (container_indicator lines dsi d)"
  by (simp add: container_indicator_def never_null_dict_set split: option.splits)

lemma declaration_place_never_null:
  "never_null d \<Longrightarrow> never_null (declaration_place rt lines dsi d)"
  by (simp add: declaration_place_def never_null_dict_set split: option.splits)

lemma header_after_mass_never_null:
  "never_null d \<Longrightarrow> never_null (header_after_mass rt lines dsi d)"
  by (simp add: header_after_mass_def declaration_place_never_null
      container_indicator_never_null destination_country_def destination_loop_never_null
      dispatch_country_def dispatch_loop_never_null transport_mode_never_null
      transport_identity_never_null)

lemma extract_heahea_never_null:
  "extract_heahea rt lines dsi = Inr h \<Longrightarrow> never_null h"
proof -
  assume a: "extract_heahea rt lines dsi = Inr h"
  then obtain d where d: "total_gross_mass rt lines [] = Inr d" "h = header_after_mass rt lines dsi d"
    by (auto simp: extract_heahea_def split: sum.splits)
  from d(1) have "never_null d"
    by (auto simp: total_gross_mass_def never_null_def split: option.splits if_splits)
  then show ?thesis using d(2) by (simp add: header_after_mass_never_null)
qed



section \<open>What the party and item extractors write\<close>

lemma null_only_at_dict_set:
  "null_only_at k d \<Longrightarrow> v \<noteq> JNull \<or> k' = k \<Longrightarrow> null_only_at k (dict_set k' v d)"
  by (induction d) (auto simp: null_only_at_def)

lemma never_null_null_only_at: "never_null d \<Longrightarrow> null_only_at k d"
  by (simp add: never_null_def null_only_at_def list_all_iff)

lemma sender_address_nulls:
  "null_only_at k d \<Longrightarrow> null_only_at k (sender_address rt l d)"
  by (simp add: sender_address_def null_only_at_dict_set)

lemma sender_fields_nulls:
  "null_only_at k d \<Longrightarrow> null_only_at k (sender_fields rt lines i d)"
  by (simp add: sender_fields_def Let_def sender_address_nulls null_only_at_dict_set)

lemma sender_country_nulls: "null_only_at k d \<Longrightarrow> null_only_at k (sender_country d)"
  by (simp add: sender_country_def null_only_at_dict_set split: option.splits json.splits)

lemma sender_country_postal:
  "map_of (sender_country d) (asc ''PosCodEX123'') = map_of d (asc ''PosCodEX123'')"
proof -
  have "asc ''PosCodEX123'' \<noteq> asc ''CouEX125''" by (simp add: asc_def)
  then show ?thesis
    by (simp add: sender_country_def map_of_dict_set split: option.splits json.splits)
qed

lemma extract_traexpex1_shape:
  "map_of (extract_traexpex1 rt lines dsi) (asc ''PosCodEX123'') = Some JNull \<and>
   null_only_at (asc ''PosCodEX123'') (extract_traexpex1 rt lines dsi)"
proof -
  have "null_only_at (asc ''PosCodEX123'') []" by (simp add: null_only_at_def)
  then have "null_only_at (asc ''PosCodEX123'')
      (case find (\<lambda>i. tin_pattern rt (strip (lines ! i))) (window lines dsi 20) of
         None \<Rightarrow> [] | Some i \<Rightarrow> sender_fields rt lines i [])"
    by (simp add: sender_fields_nulls split: option.splits)
  then show ?thesis
    by (simp add: extract_traexpex1_def sender_country_postal map_of_dict_set
        sender_country_nulls null_only_at_dict_set)
qed

lemma receiver_scan_never_null: "never_null (receiver_scan rt lines dsi)"
proof -
  have e: "never_null []" by (simp add: never_null_def)
  have a: "never_null d \<Longrightarrow> never_null (receiver_address rt lines i d)" for i d
    by (simp add: receiver_address_def never_null_dict_set split: option.splits prod.splits)
  have n: "never_null d \<Longrightarrow> never_null (receiver_name lines i d)" for i d
    by (simp add: receiver_name_def never_null_dict_set)
  have t: "never_null d \<Longrightarrow> never_null (receiver_tin rt lines i d)" for i d
    by (simp add: receiver_tin_def never_null_dict_set)
  have c: "never_null [(k, JStr x)]" for k x by (simp add: never_null_def)
  show ?thesis
    by (simp add: receiver_scan_def e a n t c split: option.splits)
qed

lemma extract_traconce1_shape:
  "null_only_at (asc ''TINCE159'') (extract_traconce1 rt lines dsi)"
  by (simp add: extract_traconce1_def null_only_at_dict_set never_null_null_only_at
      receiver_scan_never_null)

lemma dedup_docs_keys:
  "list_all (\<lambda>d. json_keys d = [asc ''DocTypDC21'', asc ''DocRefDC23'']) (dedup_docs ms seen)"
  by (induction ms seen rule: dedup_docs.induct) (simp_all add: json_keys_def)

lemma packages_at_keys:
  "list_all (\<lambda>p. json_keys p = [asc ''KinOfPacGS23'', asc ''NumOfPacGS24'',
                                  asc ''MarNumOfPacGS21''])
     (packages_at rt lines i)"
  by (simp add: packages_at_def Let_def json_keys_def)

lemma build_item_shape: "item_shape (build_item rt lines n ci code nci)"
proof -
  have k: "asc ''COMCODGODITM'' \<noteq> asc ''IteNumGDS7''" "asc ''COMCODGODITM'' \<noteq> asc ''GroMasGDS46''"
    "asc ''COMCODGODITM'' \<noteq> asc ''GooDesGDS23''" "asc ''COMCODGODITM'' \<noteq> asc ''UNDanGooCodGDI1''"
    "asc ''PACGS2'' \<noteq> asc ''IteNumGDS7''" "asc ''PACGS2'' \<noteq> asc ''GroMasGDS46''"
    "asc ''PACGS2'' \<noteq> asc ''GooDesGDS23''" "asc ''PACGS2'' \<noteq> asc ''UNDanGooCodGDI1''"
    "asc ''PACGS2'' \<noteq> asc ''COMCODGODITM''"
    "asc ''PRODOCDC2'' \<noteq> asc ''IteNumGDS7''" "asc ''PRODOCDC2'' \<noteq> asc ''GroMasGDS46''"
    "asc ''PRODOCDC2'' \<noteq> asc ''GooDesGDS23''" "asc ''PRODOCDC2'' \<noteq> asc ''UNDanGooCodGDI1''"
    "asc ''PRODOCDC2'' \<noteq> asc ''COMCODGODITM''" "asc ''PRODOCDC2'' \<noteq> asc ''PACGS2''"
    by (simp_all add: asc_def)
  show ?thesis
    unfolding item_shape_def build_item_def Let_def
    using k packages_at_keys [of rt lines] dedup_docs_keys
    by (simp add: json_keys_def item_keys_def section_dict_def section_list_def json_get_def
        previous_documents_def split: option.splits)
qed

lemma build_items_shape: "list_all item_shape (build_items rt lines n ps)"
  by (induction ps arbitrary: n) (auto simp: build_item_shape)

lemma create_empty_item_shape: "item_shape create_empty_item"
  by (simp add: item_shape_def create_empty_item_def json_keys_def item_keys_def
      section_dict_def section_list_def json_get_def asc_def)

lemma extract_gooitegds_shape:
  "extract_gooitegds rt lines dsi \<noteq> [] \<and> list_all item_shape (extract_gooitegds rt lines dsi)"
proof -
  have "build_items rt lines n ps \<noteq> []" if "ps \<noteq> []" for n ps
    using that by (cases ps) auto
  then show ?thesis
    by (simp add: extract_gooitegds_def build_items_shape create_empty_item_shape)
qed



section \<open>The default offset and short documents\<close>

lemma find_data_section_default:
  assumes "no_landmark rt lines"
  shows "find_data_section rt lines = 80"
proof -
  have a: "\<not> decl_code_line rt (lines ! i) \<and> \<not> lrn_label (lines ! i)" if "i < length lines" for i
    using assms that by (simp add: no_landmark_def list_all_length)
  have "find (\<lambda>i. decl_code_line rt (lines ! i)) [0..<length lines] = None"
    using a by (simp add: find_None_iff)
  moreover have "find (\<lambda>i. lrn_label (lines ! i)) [0..<length lines] = None"
    using a by (simp add: find_None_iff)
  ultimately show ?thesis by (simp add: find_data_section_def)
qed

lemma window_short: "length lines \<le> a \<Longrightarrow> window lines a n = []"
  by (simp add: window_def)

lemma header_after_mass_short:
  "length lines \<le> dsi \<Longrightarrow> header_after_mass rt lines dsi d = d"
  by (simp add: header_after_mass_def declaration_place_def container_indicator_def
      destination_country_def dispatch_country_def transport_mode_def transport_identity_def
      window_short)

lemma extract_traexpex1_short:
  "length lines \<le> dsi \<Longrightarrow> extract_traexpex1 rt lines dsi = [(asc ''PosCodEX123'', JNull)]"
  by (simp add: extract_traexpex1_def window_short sender_country_def asc_def)

lemma extract_traconce1_short:
  "length lines \<le> dsi + 5 \<Longrightarrow> extract_traconce1 rt lines dsi = [(asc ''TINCE159'', JNull)]"
  by (simp add: extract_traconce1_def receiver_scan_def)

lemma extract_gooitegds_short:
  "length lines \<le> max dsi 100 \<Longrightarrow> extract_gooitegds rt lines dsi = [create_empty_item]"
  by (simp add: extract_gooitegds_def commodity_positions_def landmark_lines_def)

lemma extract_all_cases:
  "extract_all rt lines =
     (case total_gross_mass rt lines [] of
        Inl e \<Rightarrow> Inl e
      | Inr d \<Rightarrow>
          Inr (assemble rt lines (find_data_section rt lines)
                 (header_after_mass rt lines (find_data_section rt lines) d)))"
  by (simp add: extract_all_def extract_heahea_def split: sum.splits)

lemma assemble_short:
  "length lines \<le> 80 \<Longrightarrow> assemble rt lines 80 (header_after_mass rt lines 80 []) =
     unresolved_declaration"
  by (simp add: assemble_def unresolved_declaration_def header_after_mass_short
      extract_traexpex1_short extract_traconce1_short extract_gooitegds_short)

lemma total_gross_mass_unmatched:
  "mass_unmatched rt lines \<Longrightarrow> total_gross_mass rt lines d = Inr d"
  by (cases "mass_line lines") (simp_all add: mass_unmatched_def total_gross_mass_def)

lemma extract_all_short:
  "no_landmark rt lines \<Longrightarrow> length lines \<le> 80 \<Longrightarrow> mass_unmatched rt lines \<Longrightarrow>
   extract_all rt lines = Inr unresolved_declaration"
  by (simp only: extract_all_cases total_gross_mass_unmatched find_data_section_default
      assemble_short sum.case)




section \<open>Examples: documents without landmarks\<close>

lemma strip_more_examples:
  "strip (asc ''abc'') = asc ''abc''" "strip (asc ''1200'') = asc ''1200''" "strip [] = []"
  by (simp_all add: asc_def strip_def py_isspace_def)

lemma not_landmark_examples:
  "\<not> decl_code_line rt (asc ''abc'') \<and> \<not> lrn_label (asc ''abc'')"
  "\<not> decl_code_line rt (asc ''KGM'') \<and> \<not> lrn_label (asc ''KGM'')"
  "\<not> decl_code_line rt (asc ''1200'') \<and> \<not> lrn_label (asc ''1200'')"
  "\<not> decl_code_line rt [] \<and> \<not> lrn_label []"
  unfolding decl_code_line_def strip_more_examples strip_KGM
  by (simp_all add: decl_code_def lrn_label_def asc_def)

lemma no_landmark_examples:
  "no_landmark rt [asc ''abc'']" "no_landmark rt [asc ''abc'', asc ''KGM'']"
  "no_landmark rt [asc ''1200'', asc ''KGM'']" "no_landmark rt [[]]"
  by (simp_all add: no_landmark_def not_landmark_examples)

lemma mass_unmatched_examples:
  "mass_unmatched latin1_runtime [asc ''abc'', asc ''KGM'']"
  "mass_unmatched rt [asc ''abc'']" "mass_unmatched rt [[]]"
proof -
  have "strip (asc ''abc'') \<noteq> asc ''KGM''" by (simp add: strip_more_examples) (simp add: asc_def)
  from mass_line_second [OF this]
  show "mass_unmatched latin1_runtime [asc ''abc'', asc ''KGM'']"
    by (simp add: mass_unmatched_def strip_more_examples py_isdigit_def)
      (simp add: asc_def latin1_runtime_def)
  have "mass_line [asc ''abc''] = None"
    by (simp add: mass_line_def strip_more_examples) (simp add: asc_def)
  then show "mass_unmatched rt [asc ''abc'']" by (simp add: mass_unmatched_def)
  have "mass_line [[]] = None"
    by (simp add: mass_line_def strip_more_examples) (simp add: asc_def)
  then show "mass_unmatched rt [[]]" by (simp add: mass_unmatched_def)
qed





section \<open>The shape of the record\<close>

lemma assemble_sections:
  "json_keys (assemble rt lines dsi h) =
     [asc ''HEAHEA'', asc ''TRAEXPEX1'', asc ''TRACONCE1'', asc ''SEAINFSLI'', asc ''GOOITEGDS'']"
  "section_dict (asc ''HEAHEA'') (assemble rt lines dsi h) = h"
  "section_dict (asc ''TRAEXPEX1'') (assemble rt lines dsi h) = extract_traexpex1 rt lines dsi"
  "section_dict (asc ''TRACONCE1'') (assemble rt lines dsi h) = extract_traconce1 rt lines dsi"
  "section_dict (asc ''SEAINFSLI'') (assemble rt lines dsi h) = seal_info"
  "section_list (asc ''GOOITEGDS'') (assemble rt lines dsi h) = extract_gooitegds rt lines dsi"
proof -
  have k: "asc ''TRAEXPEX1'' \<noteq> asc ''HEAHEA''" "asc ''TRACONCE1'' \<noteq> asc ''HEAHEA''"
    "asc ''TRACONCE1'' \<noteq> asc ''TRAEXPEX1''" "asc ''SEAINFSLI'' \<noteq> asc ''HEAHEA''"
    "asc ''SEAINFSLI'' \<noteq> asc ''TRAEXPEX1''" "asc ''SEAINFSLI'' \<noteq> asc ''TRACONCE1''"
    "asc ''GOOITEGDS'' \<noteq> asc ''HEAHEA''" "asc ''GOOITEGDS'' \<noteq> asc ''TRAEXPEX1''"
    "asc ''GOOITEGDS'' \<noteq> asc ''TRACONCE1''" "asc ''GOOITEGDS'' \<noteq> asc ''SEAINFSLI''"
    by (simp_all add: asc_def)
  show "json_keys (assemble rt lines dsi h) =
     [asc ''HEAHEA'', asc ''TRAEXPEX1'', asc ''TRACONCE1'', asc ''SEAINFSLI'', asc ''GOOITEGDS'']"
    by (simp add: assemble_def json_keys_def)
  show "section_dict (asc ''HEAHEA'') (assemble rt lines dsi h) = h"
    by (simp add: assemble_def section_dict_def json_get_def)
  show "section_dict (asc ''TRAEXPEX1'') (assemble rt lines dsi h) = extract_traexpex1 rt lines dsi"
    using k by (simp add: assemble_def section_dict_def json_get_def)
  show "section_dict (asc ''TRACONCE1'') (assemble rt lines dsi h) = extract_traconce1 rt lines dsi"
    using k by (simp add: assemble_def section_dict_def json_get_def)
  show "section_dict (asc ''SEAINFSLI'') (assemble rt lines dsi h) = seal_info"
    using k by (simp add: assemble_def section_dict_def json_get_def)
  show "section_list (asc ''GOOITEGDS'') (assemble rt lines dsi h) = extract_gooitegds rt lines dsi"
    using k by (simp add: assemble_def section_list_def json_get_def)
qed

lemma extract_all_Inr:
  assumes "extract_all rt lines = Inr v"
  obtains h where "extract_heahea rt lines (find_data_section rt lines) = Inr h"
    and "v = assemble rt lines (find_data_section rt lines) h"
  using assms by (auto simp: extract_all_def split: sum.splits)

section \<open>The keys the header searches assign\<close>

lemma dict_has_dict_set: "dict_has k (dict_set k' v d) = (k = k' \<or> dict_has k d)"
  by (simp add: dict_has_def map_of_dict_set)

lemma dict_has_Nil: "dict_has k [] = False"
  by (simp add: dict_has_def)

lemma find_list_ex: "(find P xs = None) = (\<not> list_ex P xs)"
  by (auto simp: find_None_iff list_ex_iff)

lemma transport_identity_has:
  "dict_has k (transport_identity rt lines dsi d) =
     (dict_has k d \<or>
      (k = asc ''IdeOfMeaOfTraAtDHEA78'' \<and>
       list_ex (\<lambda>i. vehicle_pattern rt (strip (lines ! i))) (window lines dsi 50)) \<or>
      (k = asc ''NatOfMeaOfTraCroHEA87'' \<and> nationality_hit rt lines dsi))"
proof (cases "find (\<lambda>i. vehicle_pattern rt (strip (lines ! i))) (window lines dsi 50)")
  case None
  then show ?thesis
    using find_list_ex [of "\<lambda>i. vehicle_pattern rt (strip (lines ! i))" "window lines dsi 50"]
    by (simp add: transport_identity_def nationality_hit_def)
next
  case (Some i)
  then show ?thesis
    using find_list_ex [of "\<lambda>i. vehicle_pattern rt (strip (lines ! i))" "window lines dsi 50"]
    by (auto simp: transport_identity_def nationality_hit_def Let_def dict_has_dict_set)
qed

lemma transport_mode_has:
  "dict_has k (transport_mode lines dsi d) =
     (dict_has k d \<or>
      (k = asc ''TraModAtBorHEA76'' \<and> list_ex (mode_candidate lines) (window lines dsi 50)))"
  by (auto simp: transport_mode_def Let_def dict_has_dict_set filter_empty_conv list_ex_iff)

lemma dispatch_loop_has:
  "dict_has k (dispatch_loop rt lines dsi is d) =
     (dict_has k d \<or>
      (k = asc ''CouOfDisCodHEA55'' \<and> list_ex (dispatch_hit rt lines dsi) is))"
proof (induction "is" arbitrary: d)
  case Nil
  then show ?case by simp
next
  case (Cons i "is")
  show ?case
  proof (cases "dispatch_name_line lines i")
    case True
    then show ?thesis
      using Cons.IH [of d]
      by (auto simp: dispatch_hit_def dispatch_name_line_def dict_has_dict_set)
  next
    case False
    then show ?thesis
      using Cons.IH [of d]
        Cons.IH [of "dict_set (asc ''CouOfDisCodHEA55'') (JStr (strip (lines ! i))) d"]
      by (auto simp: dispatch_hit_def dispatch_name_line_def dict_has_dict_set)
  qed
qed

lemma destination_code_has:
  "dict_has k (destination_code lines i d) =
     (dict_has k d \<or>
      (k = asc ''CouOfDesCodHEA30'' \<and>
       list_ex (\<lambda>j. two_upper (strip (lines ! j)) \<and> strip (lines ! j) \<noteq> asc ''MK'')
         [i + 1..<min (length lines) (i + 5)]))"
proof (cases "find (\<lambda>j. two_upper (strip (lines ! j)) \<and> strip (lines ! j) \<noteq> asc ''MK'')
             [i + 1..<min (length lines) (i + 5)]")
  case None
  then show ?thesis
    using find_list_ex [of "\<lambda>j. two_upper (strip (lines ! j)) \<and> strip (lines ! j) \<noteq> asc ''MK''"
        "[i + 1..<min (length lines) (i + 5)]"]
    by (simp add: destination_code_def)
next
  case (Some j)
  then show ?thesis
    using find_list_ex [of "\<lambda>j. two_upper (strip (lines ! j)) \<and> strip (lines ! j) \<noteq> asc ''MK''"
        "[i + 1..<min (length lines) (i + 5)]"]
    by (auto simp: destination_code_def dict_has_dict_set)
qed

lemma destination_names_has:
  "dict_has k (destination_names lines i cs d) =
     (dict_has k d \<or>
      (k = asc ''CouOfDesCodHEA30'' \<and>
       list_ex (\<lambda>country. contains country (strip (lines ! i))) cs \<and>
       list_ex (\<lambda>j. two_upper (strip (lines ! j)) \<and> strip (lines ! j) \<noteq> asc ''MK'')
         [i + 1..<min (length lines) (i + 5)]))"
proof (induction cs arbitrary: d)
  case Nil
  then show ?case by simp
next
  case (Cons c cs)
  show ?case
    using Cons.IH [of d] Cons.IH [of "destination_code lines i d"]
    by (auto simp: destination_code_has)
qed

lemma destination_loop_has:
  "dict_has k (destination_loop lines is d) =
     (dict_has k d \<or>
      (k = asc ''CouOfDesCodHEA30'' \<and> list_ex (destination_hit lines) is))"
proof (induction "is" arbitrary: d)
  case Nil
  then show ?case by simp
next
  case (Cons i "is")
  show ?case
    using Cons.IH [of "destination_names lines i country_names d"]
    by (auto simp: destination_names_has destination_hit_def)
qed

lemma container_indicator_has:
  "dict_has k (container_indicator lines dsi d) =
     (dict_has k d \<or>
      (k = asc ''ConIndHEA96'' \<and> list_ex (container_hit lines) (window lines dsi 50)))"
proof -
  have c: "container_indicator lines dsi d =
      (case find (container_hit lines) (window lines dsi 50) of
         None \<Rightarrow> d
       | Some i \<Rightarrow> dict_set (asc ''ConIndHEA96'') (JStr (strip (lines ! i))) d)"
    by (simp add: container_indicator_def container_hit_def [abs_def])
  show ?thesis
    using find_list_ex [of "container_hit lines" "window lines dsi 50"]
    by (cases "find (container_hit lines) (window lines dsi 50)")
      (auto simp: c dict_has_dict_set)
qed

lemma declaration_place_has:
  "dict_has k (declaration_place rt lines dsi d) =
     (dict_has k d \<or>
      (k = asc ''DecPlaHEA394'' \<and> list_ex (place_hit rt lines) (window lines dsi 50)))"
proof -
  have c: "declaration_place rt lines dsi d =
      (case find (place_hit rt lines) (window lines dsi 50) of
         None \<Rightarrow> d
       | Some i \<Rightarrow>
          dict_set (asc ''DecPlaHEA394'')
            (JStr (strip (lines ! i) @ asc '' '' @ place_name lines i)) d)"
    by (simp add: declaration_place_def place_hit_def [abs_def])
  show ?thesis
    using find_list_ex [of "place_hit rt lines" "window lines dsi 50"]
    by (cases "find (place_hit rt lines) (window lines dsi 50)")
      (auto simp: c dict_has_dict_set)
qed



lemma header_keys_differ:
  "distinct [asc ''TotGroMasHEA307'', asc ''IdeOfMeaOfTraAtDHEA78'',
             asc ''NatOfMeaOfTraCroHEA87'', asc ''TraModAtBorHEA76'', asc ''CouOfDisCodHEA55'',
             asc ''CouOfDesCodHEA30'', asc ''ConIndHEA96'', asc ''DecPlaHEA394'']"
  by (simp add: asc_def)

lemma header_after_mass_has:
  "dict_has k (header_after_mass rt lines dsi d) =
     (dict_has k d \<or> (k \<noteq> asc ''TotGroMasHEA307'' \<and> header_matched rt lines dsi k))"
  using header_keys_differ
  by (auto simp: header_after_mass_def declaration_place_has container_indicator_has
      destination_country_def destination_loop_has dispatch_country_def dispatch_loop_has
      transport_mode_has transport_identity_has header_matched_def)

lemma total_gross_mass_has:
  "total_gross_mass rt lines [] = Inr d \<Longrightarrow>
   dict_has k d = (k = asc ''TotGroMasHEA307'' \<and> header_matched rt lines dsi k)"
proof (cases "mass_line lines")
  case None
  assume "total_gross_mass rt lines [] = Inr d"
  then show ?thesis using None
    by (auto simp: total_gross_mass_def header_matched_def dict_has_Nil)
next
  case (Some m)
  assume "total_gross_mass rt lines [] = Inr d"
  then show ?thesis using Some
    by (cases "py_int rt m")
      (auto simp: total_gross_mass_def header_matched_def dict_has_def split: if_splits)
qed

lemma extract_heahea_has:
  assumes "extract_heahea rt lines dsi = Inr h"
  shows "dict_has k h = header_matched rt lines dsi k"
proof -
  from assms obtain d where d: "total_gross_mass rt lines [] = Inr d"
    and h: "h = header_after_mass rt lines dsi d"
    by (auto simp: extract_heahea_def split: sum.splits)
  show ?thesis
    unfolding h header_after_mass_has total_gross_mass_has [OF d, of k dsi] by blast
qed



section \<open>The keys the party extractors assign\<close>

lemma dict_has_Cons: "dict_has k ((k', v) # d) = (k = k' \<or> dict_has k d)"
  by (auto simp: dict_has_def)

lemma sender_address_has:
  "dict_has k (sender_address rt l d) =
     (dict_has k d \<or> (k = asc ''StrAndNumEX122'' \<and> street_marker rt l) \<or>
      (k = asc ''CitEX124'' \<and> street_marker rt l \<and> 44 \<in> set l))"
  by (auto simp: sender_address_def street_marker_def dict_has_dict_set)

lemma sender_address_tin:
  "map_of (sender_address rt l d) (asc ''TINEX159'') = map_of d (asc ''TINEX159'')"
proof -
  have "asc ''TINEX159'' \<noteq> asc ''StrAndNumEX122''" "asc ''TINEX159'' \<noteq> asc ''CitEX124''"
    by (simp_all add: asc_def)
  then show ?thesis by (simp add: sender_address_def map_of_dict_set)
qed

lemma sender_fields_has:
  "dict_has k (sender_fields rt lines i d) =
     (dict_has k d \<or> k = asc ''TINEX159'' \<or>
      (k = asc ''NamEX17'' \<and> snd (sender_name_line lines i) \<noteq> []) \<or>
      (k = asc ''StrAndNumEX122'' \<and> street_marker rt (sender_address_line lines i)) \<or>
      (k = asc ''CitEX124'' \<and> street_marker rt (sender_address_line lines i) \<and>
       44 \<in> set (sender_address_line lines i)))"
  by (auto simp: sender_fields_def Let_def sender_address_has dict_has_dict_set
      sender_name_line_def sender_address_line_def)

lemma sender_fields_tin:
  "map_of (sender_fields rt lines i d) (asc ''TINEX159'') = Some (JStr (strip (lines ! i)))"
proof -
  have "asc ''TINEX159'' \<noteq> asc ''NamEX17''" by (simp add: asc_def)
  then show ?thesis
    by (simp add: sender_fields_def Let_def sender_address_tin map_of_dict_set)
qed

lemma sender_country_has:
  "dict_has k (sender_country d) =
     (dict_has k d \<or>
      (k = asc ''CouEX125'' \<and> (\<exists>tin. map_of d (asc ''TINEX159'') = Some (JStr tin))))"
  by (auto simp: sender_country_def dict_has_dict_set split: option.splits json.splits)

lemma sender_keys_differ:
  "distinct [asc ''PosCodEX123'', asc ''TINEX159'', asc ''CouEX125'', asc ''NamEX17'',
             asc ''StrAndNumEX122'', asc ''CitEX124'']"
  by (simp add: asc_def)

lemma extract_traexpex1_has:
  "dict_has k (extract_traexpex1 rt lines dsi) = sender_matched rt lines dsi k"
proof (cases "find (\<lambda>i. tin_pattern rt (strip (lines ! i))) (window lines dsi 20)")
  case None
  have "map_of [(asc ''PosCodEX123'', JNull)] (asc ''TINEX159'') = None"
    by (simp add: asc_def)
  then show ?thesis using None
    by (auto simp: extract_traexpex1_def sender_matched_def sender_country_has
        dict_has_dict_set dict_has_Nil dict_has_Cons)
next
  case (Some i)
  have "asc ''TINEX159'' \<noteq> asc ''PosCodEX123''" by (simp add: asc_def)
  then have t: "map_of (dict_set (asc ''PosCodEX123'') JNull (sender_fields rt lines i []))
      (asc ''TINEX159'') = Some (JStr (strip (lines ! i)))"
    by (simp add: map_of_dict_set sender_fields_tin)
  show ?thesis using Some sender_keys_differ
    by (auto simp: extract_traexpex1_def sender_matched_def sender_country_has t
        dict_has_dict_set sender_fields_has dict_has_Nil dict_has_Cons)
qed

lemma receiver_address_has:
  "dict_has k (receiver_address rt lines i d) =
     (dict_has k d \<or>
      (receiver_address_ok lines i \<and>
       (k = asc ''StrAndNumCE122'' \<or> k = asc ''CitCE124'' \<or>
        (k = asc ''PosCodCE123'' \<and> postal_search rt (strip (lines ! (i - 2))) \<noteq> None))))"
  by (cases "postal_search rt (strip (lines ! (i - 2)))")
    (auto simp: receiver_address_def receiver_address_ok_def dict_has_dict_set)

lemma receiver_name_has:
  "dict_has k (receiver_name lines i d) =
     (dict_has k d \<or>
      (k = asc ''NamCE17'' \<and> i \<ge> 3 \<and> strip (lines ! (i - 3)) \<noteq> [] \<and>
       length (strip (lines ! (i - 3))) > 5))"
  by (auto simp: receiver_name_def dict_has_dict_set)

lemma receiver_tin_has:
  "dict_has k (receiver_tin rt lines i d) \<Longrightarrow> k = asc ''TINCE159'' \<or> dict_has k d"
  by (auto simp: receiver_tin_def dict_has_dict_set split: if_splits)

lemma receiver_tin_keeps: "dict_has k d \<Longrightarrow> dict_has k (receiver_tin rt lines i d)"
  by (auto simp: receiver_tin_def dict_has_dict_set)

lemma extract_traconce1_has:
  "dict_has k (extract_traconce1 rt lines dsi) = receiver_matched rt lines dsi k"
proof (cases "k = asc ''TINCE159''")
  case True
  then show ?thesis
    by (simp add: extract_traconce1_def dict_has_dict_set receiver_matched_def)
next
  case False
  show ?thesis
  proof (cases "find (receiver_anchor rt lines) [dsi + 5..<min (length lines) (dsi + 30)]")
    case None
    then show ?thesis using False
      by (simp add: extract_traconce1_def dict_has_dict_set receiver_matched_def
          receiver_scan_def dict_has_Nil dict_has_Cons)
  next
    case (Some i)
    let ?d = "receiver_name lines i
               (receiver_address rt lines i
                  (dict_set (asc ''CouCE125'') (JStr (strip (lines ! (i - 1)))) []))"
    have "dict_has k (receiver_tin rt lines i ?d) = dict_has k ?d"
      using False receiver_tin_has [of k rt lines i ?d] receiver_tin_keeps [of k ?d rt lines i]
      by blast
    then show ?thesis using Some False
      by (auto simp: extract_traconce1_def dict_has_dict_set receiver_matched_def
          receiver_scan_def receiver_name_has receiver_address_has dict_has_Nil dict_has_Cons)
  qed
qed



section \<open>The values of an item that start as None\<close>

lemma gross_mass_at_value:
  "(case gross_mass_at rt lines i of JNull \<Rightarrow> True | JFloat f \<Rightarrow> True | _ \<Rightarrow> False)"
  by (simp add: gross_mass_at_def Let_def split: option.splits)

lemma build_item_values: "item_values (build_item rt lines n ci code nci)"
proof -
  have k: "asc ''UNDanGooCodGDI1'' \<noteq> asc ''IteNumGDS7''"
    "asc ''UNDanGooCodGDI1'' \<noteq> asc ''GroMasGDS46''"
    "asc ''UNDanGooCodGDI1'' \<noteq> asc ''GooDesGDS23''"
    "asc ''GroMasGDS46'' \<noteq> asc ''IteNumGDS7''"
    by (simp_all add: asc_def)
  show ?thesis
    unfolding item_values_def build_item_def Let_def json_get_def
    using k gross_mass_at_value [of rt lines]
    by (auto split: option.splits)
qed

lemma build_items_values: "list_all item_values (build_items rt lines n ps)"
  by (induction ps arbitrary: n) (auto simp: build_item_values)

lemma extract_gooitegds_values: "list_all item_values (extract_gooitegds rt lines dsi)"
proof -
  have "item_values create_empty_item"
    by (simp add: item_values_def create_empty_item_def json_get_def asc_def)
  then show ?thesis by (simp add: extract_gooitegds_def build_items_values)
qed

section \<open>Examples: the sample document\<close>

lemma sample_lines:
  "length sample_document = 82" "sample_document ! 0 = asc ''1200''"
  "sample_document ! 1 = asc ''KGM''" "sample_document ! Suc 0 = asc ''KGM''"
  "sample_document ! 80 = asc ''SK1234AB''"
  "sample_document ! 81 = asc ''MK''"
  by (simp_all add: sample_document_def nth_append)

lemma strip_sample_examples:
  "strip (asc ''SK1234AB'') = asc ''SK1234AB''" "strip (asc ''MK'') = asc ''MK''"
  by (simp_all add: asc_def strip_def py_isspace_def)

lemma not_landmark_sample:
  "\<not> decl_code_line rt (asc ''SK1234AB'') \<and> \<not> lrn_label (asc ''SK1234AB'')"
  "\<not> decl_code_line rt (asc ''MK'') \<and> \<not> lrn_label (asc ''MK'')"
  unfolding decl_code_line_def strip_sample_examples
  by (simp_all add: decl_code_def lrn_label_def asc_def)

lemma no_landmark_sample: "no_landmark rt sample_document"
  by (simp add: no_landmark_def sample_document_def not_landmark_examples not_landmark_sample
      list_all_iff)

lemma mass_line_sample: "mass_line sample_document = Some (asc ''1200'')"
proof -
  have "find (\<lambda>i. strip (sample_document ! i) = asc ''KGM'') [0..<length sample_document] =
      Some (Suc 0)"
    by (rule find_upt_second)
      (simp_all add: sample_lines strip_more_examples strip_KGM, simp add: asc_def)
  then show ?thesis
    by (simp add: mass_line_def get_line_safe_def sample_lines strip_more_examples)
qed

lemma window_sample: "window sample_document 80 50 = [80, 81]"
  by (simp add: window_def sample_lines upt_rec)

lemma find_next_sample:
  "find_next_nonempty_line sample_document 81 3 = (81, asc ''MK'')"
  "find_next_nonempty_line sample_document 82 3 = (- 1, [])"
  by (simp_all add: find_next_nonempty_line_def window_def sample_lines upt_rec
      nonempty_line_def strip_sample_examples markers_def, simp_all add: asc_def)

lemma sample_patterns:
  "vehicle_pattern latin1_runtime (asc ''SK1234AB'')" "two_upper (asc ''MK'')"
  "\<not> tin_pattern rt (asc ''SK1234AB'')" "\<not> tin_pattern rt (asc ''MK'')"
  "\<not> n_digits rt 4 (asc ''SK1234AB'')" "\<not> n_digits rt 4 (asc ''MK'')"
  "asc ''SK1234AB'' \<notin> set mode_digits" "asc ''MK'' \<notin> set mode_digits"
  "asc ''SK1234AB'' \<notin> set [asc ''0'', asc ''1'']" "asc ''MK'' \<notin> set [asc ''0'', asc ''1'']"
  by (simp_all add: vehicle_pattern_def vehicle_reg_def two_upper_def tin_pattern_def
      n_digits_def mode_digits_def upper_az_def is_decimal_def latin1_runtime_def asc_def)

lemma sample_names:
  "\<not> dispatch_name_line sample_document 80" "\<not> dispatch_name_line sample_document 81"
  unfolding dispatch_name_line_def sample_lines strip_sample_examples
  by (simp_all add: SEVERNA_MAKEDONIJA_def MAKEDONIJA_def asc_def)

lemma sample_identity:
  "transport_identity latin1_runtime sample_document 80 d =
     dict_set (asc ''NatOfMeaOfTraCroHEA87'') (JStr (asc ''MK''))
       (dict_set (asc ''IdeOfMeaOfTraAtDHEA78'') (JStr (asc ''SK1234AB'')) d)"
proof -
  have "find (\<lambda>i. vehicle_pattern latin1_runtime (strip (sample_document ! i)))
      (window sample_document 80 50) = Some 80"
    by (simp add: window_sample sample_lines strip_sample_examples sample_patterns)
  then show ?thesis
    by (simp add: transport_identity_def Let_def find_next_sample sample_lines
        strip_sample_examples sample_patterns) (simp add: asc_def)
qed

lemma sample_mode: "transport_mode sample_document 80 d = d"
  by (simp add: transport_mode_def Let_def window_sample mode_candidate_def sample_lines
      strip_sample_examples sample_patterns)

lemma sample_dispatch: "dispatch_country rt sample_document 80 d = d"
  using sample_names
  by (simp add: dispatch_country_def window_sample dispatch_name_line_def sample_lines
      strip_sample_examples)

lemma sample_container: "container_indicator sample_document 80 d = d"
  using sample_patterns(9,10)
  by (simp add: container_indicator_def window_sample sample_lines strip_sample_examples)

lemma sample_place: "declaration_place rt sample_document 80 d = d"
  by (simp add: declaration_place_def window_sample sample_lines strip_sample_examples
      sample_patterns)

lemma sample_sender:
  "extract_traexpex1 rt sample_document 80 = [(asc ''PosCodEX123'', JNull)]"
proof -
  have "find (\<lambda>i. tin_pattern rt (strip (sample_document ! i))) (window sample_document 80 20)
      = None"
    by (simp add: window_def sample_lines upt_rec strip_sample_examples sample_patterns)
  then show ?thesis by (simp add: extract_traexpex1_def sender_country_def asc_def)
qed

lemma destination_names_none:
  "list_all (\<lambda>c. \<not> contains c (strip (lines ! i))) cs \<Longrightarrow> destination_names lines i cs d = d"
  by (induction cs) simp_all

lemma sample_countries:
  "list_all (\<lambda>c. \<not> contains c (asc ''SK1234AB'')) country_names"
  "list_all (\<lambda>c. \<not> contains c (asc ''MK'')) country_names"
  by (simp_all add: country_names_def asc_def)

lemma sample_destination: "destination_country sample_document 80 d = d"
proof -
  have "destination_names sample_document 80 country_names d = d" for d
    by (rule destination_names_none) (simp add: sample_lines strip_sample_examples sample_countries)
  moreover have "destination_names sample_document 81 country_names d = d" for d
    by (rule destination_names_none) (simp add: sample_lines strip_sample_examples sample_countries)
  ultimately show ?thesis
    by (simp add: destination_country_def window_sample)
qed

lemma sample_header:
  "header_after_mass latin1_runtime sample_document 80 d =
     dict_set (asc ''NatOfMeaOfTraCroHEA87'') (JStr (asc ''MK''))
       (dict_set (asc ''IdeOfMeaOfTraAtDHEA78'') (JStr (asc ''SK1234AB'')) d)"
  by (simp add: header_after_mass_def sample_identity sample_mode sample_dispatch
      sample_destination sample_container sample_place)

lemma sample_mass:
  "total_gross_mass latin1_runtime sample_document [] =
      Inr [(asc ''TotGroMasHEA307'', JInt 1200)]"
  unfolding total_gross_mass_def mass_line_sample
  by (simp add: py_isdigit_def py_int_def is_decimal_def latin1_runtime_def asc_def)

lemma sample_extract_all: "extract_all latin1_runtime sample_document = Inr sample_record"
proof -
  have f: "find_data_section latin1_runtime sample_document = 80"
    by (rule find_data_section_default) (rule no_landmark_sample)
  have h: "header_after_mass latin1_runtime sample_document 80 [(asc ''TotGroMasHEA307'', JInt 1200)]
      = [(asc ''TotGroMasHEA307'', JInt 1200),
         (asc ''IdeOfMeaOfTraAtDHEA78'', JStr (asc ''SK1234AB'')),
         (asc ''NatOfMeaOfTraCroHEA87'', JStr (asc ''MK''))]"
    unfolding sample_header by (simp add: asc_def)
  have r: "extract_traconce1 latin1_runtime sample_document 80 = [(asc ''TINCE159'', JNull)]"
    by (rule extract_traconce1_short) (simp add: sample_lines)
  have g: "extract_gooitegds latin1_runtime sample_document 80 = [create_empty_item]"
    by (rule extract_gooitegds_short) (simp add: sample_lines)
  show ?thesis
    unfolding extract_all_cases sample_mass f
    by (simp add: assemble_def h sample_sender r g sample_record_def)
qed

section \<open>The record of a complete run\<close>

text \<open>
  C2, as the code has it. Every record of a complete run has the five sections. A header,
  sender or receiver field is a key of its section exactly when its extractor found a
  value (\<open>header_matched\<close>, \<open>sender_matched\<close>, \<open>receiver_matched\<close>), and is an
  absent key otherwise; the sender's postal code and the receiver's tax number are
  always keys, with the value \<open>None\<close>, and no other header, sender or receiver field
  is ever \<open>None\<close>. The seal information is as initialised. There is at least one goods
  item; every item has its seven fields, its commodity code, three fields per package
  and two per document; its dangerous-goods code is \<open>None\<close> and its gross mass is
  \<open>None\<close> or a float.
\<close>

theorem record_shape:
  assumes "extract_all rt lines = Inr v"
  shows "json_keys v =
           [asc ''HEAHEA'', asc ''TRAEXPEX1'', asc ''TRACONCE1'', asc ''SEAINFSLI'',
            asc ''GOOITEGDS''] \<and>
         (\<forall>k. dict_has k (section_dict (asc ''HEAHEA'') v) =
                header_matched rt lines (find_data_section rt lines) k) \<and>
         never_null (section_dict (asc ''HEAHEA'') v) \<and>
         (\<forall>k. dict_has k (section_dict (asc ''TRAEXPEX1'') v) =
                sender_matched rt lines (find_data_section rt lines) k) \<and>
         map_of (section_dict (asc ''TRAEXPEX1'') v) (asc ''PosCodEX123'') = Some JNull \<and>
         null_only_at (asc ''PosCodEX123'') (section_dict (asc ''TRAEXPEX1'') v) \<and>
         (\<forall>k. dict_has k (section_dict (asc ''TRACONCE1'') v) =
                receiver_matched rt lines (find_data_section rt lines) k) \<and>
         map_of (section_dict (asc ''TRACONCE1'') v) (asc ''TINCE159'') = Some JNull \<and>
         null_only_at (asc ''TINCE159'') (section_dict (asc ''TRACONCE1'') v) \<and>
         section_dict (asc ''SEAINFSLI'') v = seal_info \<and>
         section_list (asc ''GOOITEGDS'') v \<noteq> [] \<and>
         list_all item_shape (section_list (asc ''GOOITEGDS'') v) \<and>
         list_all item_values (section_list (asc ''GOOITEGDS'') v)"
proof -
  from assms obtain h where h: "extract_heahea rt lines (find_data_section rt lines) = Inr h"
    and v: "v = assemble rt lines (find_data_section rt lines) h"
    by (rule extract_all_Inr)
  have "never_null h" using h by (rule extract_heahea_never_null)
  moreover have "map_of (extract_traconce1 rt lines (find_data_section rt lines))
      (asc ''TINCE159'') = Some JNull"
    by (simp add: extract_traconce1_def map_of_dict_set)
  moreover have "dict_has k h = header_matched rt lines (find_data_section rt lines) k" for k
    using h by (rule extract_heahea_has)
  ultimately show ?thesis
    unfolding v assemble_sections
    using extract_traexpex1_shape extract_traconce1_shape extract_gooitegds_shape
    by (simp add: extract_traexpex1_has extract_traconce1_has extract_gooitegds_values)
qed

lemma sample_sections:
  "section_dict (asc ''HEAHEA'') sample_record =
     [(asc ''TotGroMasHEA307'', JInt 1200),
      (asc ''IdeOfMeaOfTraAtDHEA78'', JStr (asc ''SK1234AB'')),
      (asc ''NatOfMeaOfTraCroHEA87'', JStr (asc ''MK''))]"
  "section_dict (asc ''TRAEXPEX1'') sample_record = [(asc ''PosCodEX123'', JNull)]"
  "section_dict (asc ''TRACONCE1'') sample_record = [(asc ''TINCE159'', JNull)]"
  "section_list (asc ''GOOITEGDS'') sample_record = [create_empty_item]"
  by (simp_all add: sample_record_def section_dict_def section_list_def json_get_def)
    (simp_all add: asc_def)

lemma sample_header_keys:
  "dict_has (asc ''TotGroMasHEA307'')
     [(asc ''TotGroMasHEA307'', JInt 1200),
      (asc ''IdeOfMeaOfTraAtDHEA78'', JStr (asc ''SK1234AB'')),
      (asc ''NatOfMeaOfTraCroHEA87'', JStr (asc ''MK''))]"
  "dict_has (asc ''NatOfMeaOfTraCroHEA87'')
     [(asc ''TotGroMasHEA307'', JInt 1200),
      (asc ''IdeOfMeaOfTraAtDHEA78'', JStr (asc ''SK1234AB'')),
      (asc ''NatOfMeaOfTraCroHEA87'', JStr (asc ''MK''))]"
  "\<not> dict_has (asc ''TraModAtBorHEA76'')
     [(asc ''TotGroMasHEA307'', JInt 1200),
      (asc ''IdeOfMeaOfTraAtDHEA78'', JStr (asc ''SK1234AB'')),
      (asc ''NatOfMeaOfTraCroHEA87'', JStr (asc ''MK''))]"
  "\<not> dict_has (asc ''CouOfDesCodHEA30'')
     [(asc ''TotGroMasHEA307'', JInt 1200),
      (asc ''IdeOfMeaOfTraAtDHEA78'', JStr (asc ''SK1234AB'')),
      (asc ''NatOfMeaOfTraCroHEA87'', JStr (asc ''MK''))]"
  "\<not> dict_has (asc ''TINEX159'') [(asc ''PosCodEX123'', JNull)]"
  "\<not> dict_has (asc ''CouCE125'') [(asc ''TINCE159'', JNull)]"
  by (simp_all add: dict_has_def asc_def)

lemma sample_offset: "find_data_section latin1_runtime sample_document = 80"
  by (rule find_data_section_default) (rule no_landmark_sample)

text \<open>
  The sample document: the gross mass and the nationality are found and are keys of the
  header; the mode of transport and the country of destination are not found, the
  sender has no tax number and the receiver no country, and these are no keys.
\<close>

theorem record_shape_witness:
  "extract_all latin1_runtime sample_document = Inr sample_record \<and>
   header_matched latin1_runtime sample_document 80 (asc ''TotGroMasHEA307'') \<and>
   header_matched latin1_runtime sample_document 80 (asc ''NatOfMeaOfTraCroHEA87'') \<and>
   \<not> header_matched latin1_runtime sample_document 80 (asc ''TraModAtBorHEA76'') \<and>
   \<not> header_matched latin1_runtime sample_document 80 (asc ''CouOfDesCodHEA30'') \<and>
   \<not> sender_matched latin1_runtime sample_document 80 (asc ''TINEX159'') \<and>
   \<not> receiver_matched latin1_runtime sample_document 80 (asc ''CouCE125'') \<and>
   never_null (section_dict (asc ''HEAHEA'') sample_record) \<and>
   list_all item_values (section_list (asc ''GOOITEGDS'') sample_record)"
  using record_shape [OF sample_extract_all] sample_header_keys
  unfolding sample_offset sample_sections
  by (simp add: sample_extract_all)

text \<open>
  The claim C2 has every field of the data model as a key of the output, \<open>None\<close>
  when nothing matched. The record of the sample document has three of the eight header
  fields as keys, and one sender field and one receiver field; the others are absent
  keys.
\<close>

theorem record_shape_counterexample:
  "result_section (asc ''HEAHEA'') (extract_all latin1_runtime sample_document) =
     Some (JDict [(asc ''TotGroMasHEA307'', JInt 1200),
                  (asc ''IdeOfMeaOfTraAtDHEA78'', JStr (asc ''SK1234AB'')),
                  (asc ''NatOfMeaOfTraCroHEA87'', JStr (asc ''MK''))]) \<and>
   result_section (asc ''TRAEXPEX1'') (extract_all latin1_runtime sample_document) =
     Some (JDict [(asc ''PosCodEX123'', JNull)]) \<and>
   result_section (asc ''TRACONCE1'') (extract_all latin1_runtime sample_document) =
     Some (JDict [(asc ''TINCE159'', JNull)])"
  unfolding sample_extract_all
  by (simp add: result_section_def sample_record_def json_get_def) (simp add: asc_def)

section \<open>A search without a match\<close>

lemma total_gross_mass_error:
  "(total_gross_mass rt lines d = Inl e) = (e = ValueError \<and> mass_refused rt lines)"
proof (cases "mass_line lines")
  case None
  then show ?thesis by (simp add: total_gross_mass_def mass_refused_def)
next
  case (Some m)
  then show ?thesis
    by (cases "py_int rt m") (auto simp: total_gross_mass_def mass_refused_def)
qed

lemma extract_all_error:
  "(extract_all rt lines = Inl e) = (e = ValueError \<and> mass_refused rt lines)"
proof -
  have "(extract_all rt lines = Inl e) = (total_gross_mass rt lines [] = Inl e)"
    unfolding extract_all_cases by (cases "total_gross_mass rt lines []") simp_all
  then show ?thesis by (simp add: total_gross_mass_error)
qed

lemma extract_all_returns:
  assumes "\<not> mass_refused rt lines"
  obtains h where "extract_heahea rt lines (find_data_section rt lines) = Inr h"
    and "extract_all rt lines = Inr (assemble rt lines (find_data_section rt lines) h)"
proof (cases "extract_heahea rt lines (find_data_section rt lines)")
  case (Inl e)
  then have "extract_all rt lines = Inl e" by (simp add: extract_all_def)
  then show ?thesis using assms by (simp add: extract_all_error)
next
  case (Inr h)
  then have "extract_all rt lines = Inr (assemble rt lines (find_data_section rt lines) h)"
    by (simp add: extract_all_def)
  then show ?thesis using Inr that by blast
qed

lemma never_null_value: "never_null d \<Longrightarrow> map_of d k = Some v \<Longrightarrow> v \<noteq> JNull"
  by (induction d) (auto simp: never_null_def split: if_splits)

lemma result_of_run:
  "result_dict k (Inr v) = section_dict k v" "result_section k (Inr v) = json_get k v"
  by (simp_all add: result_dict_def result_section_def)

text \<open>
  C8, as the code has it. A run ends in an error only when the line before the unit line
  passed \<open>isdigit()\<close> and \<open>int()\<close> refused it, which is a match and not a miss. In
  every other case the run returns a record: the sender, the receiver, the seal
  information and the goods items in it are what their extractors give at the offset of
  the locator, whatever the header searches found, and a header field is a key with a
  value other than \<open>None\<close> when its own search matched. A header, sender or receiver
  field whose search found no match is an absent key of its section.
\<close>

theorem no_match_no_error:
  "(extract_all rt lines = Inl e) = (e = ValueError \<and> mass_refused rt lines) \<and>
   (\<not> mass_refused rt lines \<longrightarrow>
      (\<exists>r. extract_all rt lines = Inr r) \<and>
      (\<not> header_matched rt lines (find_data_section rt lines) k \<longrightarrow>
         map_of (result_dict (asc ''HEAHEA'') (extract_all rt lines)) k = None) \<and>
      (header_matched rt lines (find_data_section rt lines) k \<longrightarrow>
         (\<exists>v. map_of (result_dict (asc ''HEAHEA'') (extract_all rt lines)) k = Some v \<and>
              v \<noteq> JNull)) \<and>
      result_dict (asc ''TRAEXPEX1'') (extract_all rt lines) =
        extract_traexpex1 rt lines (find_data_section rt lines) \<and>
      (\<not> sender_matched rt lines (find_data_section rt lines) k \<longrightarrow>
         map_of (result_dict (asc ''TRAEXPEX1'') (extract_all rt lines)) k = None) \<and>
      result_dict (asc ''TRACONCE1'') (extract_all rt lines) =
        extract_traconce1 rt lines (find_data_section rt lines) \<and>
      (\<not> receiver_matched rt lines (find_data_section rt lines) k \<longrightarrow>
         map_of (result_dict (asc ''TRACONCE1'') (extract_all rt lines)) k = None) \<and>
      result_dict (asc ''SEAINFSLI'') (extract_all rt lines) = seal_info \<and>
      result_section (asc ''GOOITEGDS'') (extract_all rt lines) =
        Some (JList (extract_gooitegds rt lines (find_data_section rt lines))))"
proof -
  let ?dsi = "find_data_section rt lines"
  have "(\<exists>r. extract_all rt lines = Inr r) \<and>
      (\<not> header_matched rt lines ?dsi k \<longrightarrow>
         map_of (result_dict (asc ''HEAHEA'') (extract_all rt lines)) k = None) \<and>
      (header_matched rt lines ?dsi k \<longrightarrow>
         (\<exists>v. map_of (result_dict (asc ''HEAHEA'') (extract_all rt lines)) k = Some v \<and>
              v \<noteq> JNull)) \<and>
      result_dict (asc ''TRAEXPEX1'') (extract_all rt lines) = extract_traexpex1 rt lines ?dsi \<and>
      (\<not> sender_matched rt lines ?dsi k \<longrightarrow>
         map_of (result_dict (asc ''TRAEXPEX1'') (extract_all rt lines)) k = None) \<and>
      result_dict (asc ''TRACONCE1'') (extract_all rt lines) = extract_traconce1 rt lines ?dsi \<and>
      (\<not> receiver_matched rt lines ?dsi k \<longrightarrow>
         map_of (result_dict (asc ''TRACONCE1'') (extract_all rt lines)) k = None) \<and>
      result_dict (asc ''SEAINFSLI'') (extract_all rt lines) = seal_info \<and>
      result_section (asc ''GOOITEGDS'') (extract_all rt lines) =
        Some (JList (extract_gooitegds rt lines ?dsi))"
    if m: "\<not> mass_refused rt lines"
  proof -
    from m obtain h where h: "extract_heahea rt lines ?dsi = Inr h"
      and r: "extract_all rt lines = Inr (assemble rt lines ?dsi h)"
      by (rule extract_all_returns)
    have hm: "dict_has k h = header_matched rt lines ?dsi k"
      using h by (rule extract_heahea_has)
    have nn: "never_null h" using h by (rule extract_heahea_never_null)
    have a: "\<not> header_matched rt lines ?dsi k \<longrightarrow> map_of h k = None"
      using hm by (auto simp: dict_has_def)
    have b: "header_matched rt lines ?dsi k \<longrightarrow> (\<exists>v. map_of h k = Some v \<and> v \<noteq> JNull)"
      using hm never_null_value [OF nn, of k] by (auto simp: dict_has_def)
    have c: "\<not> sender_matched rt lines ?dsi k \<longrightarrow> map_of (extract_traexpex1 rt lines ?dsi) k = None"
      using extract_traexpex1_has [of k rt lines ?dsi] by (auto simp: dict_has_def)
    have d: "\<not> receiver_matched rt lines ?dsi k \<longrightarrow> map_of (extract_traconce1 rt lines ?dsi) k = None"
      using extract_traconce1_has [of k rt lines ?dsi] by (auto simp: dict_has_def)
    have g: "json_get (asc ''GOOITEGDS'') (assemble rt lines ?dsi h) =
        Some (JList (extract_gooitegds rt lines ?dsi))"
      by (simp add: assemble_def json_get_def) (simp add: asc_def)
    show ?thesis
      unfolding r result_of_run assemble_sections
      using a b c d g by simp
  qed
  then show ?thesis by (simp only: extract_all_error) blast
qed

lemma sample_not_refused: "\<not> mass_refused latin1_runtime sample_document"
  unfolding mass_refused_def mass_line_sample
  by (simp add: py_isdigit_def py_int_def is_decimal_def latin1_runtime_def asc_def)

lemma sample_heahea:
  "extract_heahea latin1_runtime sample_document 80 =
     Inr [(asc ''TotGroMasHEA307'', JInt 1200),
          (asc ''IdeOfMeaOfTraAtDHEA78'', JStr (asc ''SK1234AB'')),
          (asc ''NatOfMeaOfTraCroHEA87'', JStr (asc ''MK''))]"
  unfolding extract_heahea_def sample_mass sample_header
  by (simp add: asc_def)

lemma sample_unmatched:
  "\<not> header_matched latin1_runtime sample_document 80 (asc ''TraModAtBorHEA76'')"
  "\<not> sender_matched latin1_runtime sample_document 80 (asc ''TINEX159'')"
  "\<not> receiver_matched latin1_runtime sample_document 80 (asc ''CouCE125'')"
proof -
  show "\<not> header_matched latin1_runtime sample_document 80 (asc ''TraModAtBorHEA76'')"
    using extract_heahea_has [OF sample_heahea, of "asc ''TraModAtBorHEA76''"]
      sample_header_keys by simp
  show "\<not> sender_matched latin1_runtime sample_document 80 (asc ''TINEX159'')"
    using extract_traexpex1_has [of "asc ''TINEX159''" latin1_runtime sample_document 80]
      sample_header_keys by (simp add: sample_sender)
  have "extract_traconce1 latin1_runtime sample_document 80 = [(asc ''TINCE159'', JNull)]"
    by (rule extract_traconce1_short) (simp add: sample_lines)
  then show "\<not> receiver_matched latin1_runtime sample_document 80 (asc ''CouCE125'')"
    using extract_traconce1_has [of "asc ''CouCE125''" latin1_runtime sample_document 80]
      sample_header_keys by simp
qed

text \<open>
  The sample document: nothing refuses its mass, and the run returns a record. The
  searches for the mode of transport, for the sender's tax number and for the
  receiver's country find no match, and these fields are no keys of the record.
\<close>

theorem no_match_no_error_witness:
  "\<not> mass_refused latin1_runtime sample_document \<and>
   \<not> header_matched latin1_runtime sample_document 80 (asc ''TraModAtBorHEA76'') \<and>
   \<not> sender_matched latin1_runtime sample_document 80 (asc ''TINEX159'') \<and>
   \<not> receiver_matched latin1_runtime sample_document 80 (asc ''CouCE125'') \<and>
   (\<exists>r. extract_all latin1_runtime sample_document = Inr r) \<and>
   map_of (result_dict (asc ''HEAHEA'') (extract_all latin1_runtime sample_document))
     (asc ''TraModAtBorHEA76'') = None \<and>
   map_of (result_dict (asc ''TRAEXPEX1'') (extract_all latin1_runtime sample_document))
     (asc ''TINEX159'') = None \<and>
   map_of (result_dict (asc ''TRACONCE1'') (extract_all latin1_runtime sample_document))
     (asc ''CouCE125'') = None"
proof -
  note m = sample_not_refused
  have "\<exists>r. extract_all latin1_runtime sample_document = Inr r"
    using no_match_no_error [of latin1_runtime sample_document ValueError "[]"] m by blast
  moreover have "map_of (result_dict (asc ''HEAHEA'') (extract_all latin1_runtime sample_document))
      (asc ''TraModAtBorHEA76'') = None"
    using no_match_no_error [of latin1_runtime sample_document ValueError
        "asc ''TraModAtBorHEA76''"] m sample_unmatched(1)
    unfolding sample_offset by blast
  moreover have "map_of (result_dict (asc ''TRAEXPEX1'')
      (extract_all latin1_runtime sample_document)) (asc ''TINEX159'') = None"
    using no_match_no_error [of latin1_runtime sample_document ValueError "asc ''TINEX159''"]
      m sample_unmatched(2)
    unfolding sample_offset by blast
  moreover have "map_of (result_dict (asc ''TRACONCE1'')
      (extract_all latin1_runtime sample_document)) (asc ''CouCE125'') = None"
    using no_match_no_error [of latin1_runtime sample_document ValueError "asc ''CouCE125''"]
      m sample_unmatched(3)
    unfolding sample_offset by blast
  ultimately show ?thesis using m sample_unmatched by blast
qed

text \<open>
  The claim C8 has the unmatched field in the output as null. In the sample document
  the search for the mode of transport finds no match; the run goes on and the header
  holds the three fields the other searches found, but the mode is an absent key and
  not \<open>None\<close>. In the document of the lines \<open>abc\<close> and \<open>KGM\<close> the gross-mass
  search finds no match, and the header of the record is the empty dict.
\<close>

theorem no_match_no_error_counterexample:
  "\<not> header_matched latin1_runtime sample_document
       (find_data_section latin1_runtime sample_document) (asc ''TraModAtBorHEA76'') \<and>
   result_section (asc ''HEAHEA'') (extract_all latin1_runtime sample_document) =
     Some (JDict [(asc ''TotGroMasHEA307'', JInt 1200),
                  (asc ''IdeOfMeaOfTraAtDHEA78'', JStr (asc ''SK1234AB'')),
                  (asc ''NatOfMeaOfTraCroHEA87'', JStr (asc ''MK''))]) \<and>
   map_of (result_dict (asc ''HEAHEA'') (extract_all latin1_runtime sample_document))
     (asc ''TraModAtBorHEA76'') \<noteq> Some JNull \<and>
   mass_unmatched latin1_runtime [asc ''abc'', asc ''KGM''] \<and>
   result_section (asc ''HEAHEA'') (extract_all latin1_runtime [asc ''abc'', asc ''KGM'']) =
     Some (JDict [])"
proof -
  have "extract_all latin1_runtime [asc ''abc'', asc ''KGM''] = Inr unresolved_declaration"
    by (rule extract_all_short)
      (simp_all add: no_landmark_examples mass_unmatched_examples)
  then have a: "result_section (asc ''HEAHEA'')
      (extract_all latin1_runtime [asc ''abc'', asc ''KGM'']) = Some (JDict [])"
    by (simp add: result_section_def unresolved_declaration_def json_get_def)
  have b: "result_section (asc ''HEAHEA'') (extract_all latin1_runtime sample_document) =
     Some (JDict [(asc ''TotGroMasHEA307'', JInt 1200),
                  (asc ''IdeOfMeaOfTraAtDHEA78'', JStr (asc ''SK1234AB'')),
                  (asc ''NatOfMeaOfTraCroHEA87'', JStr (asc ''MK''))])"
    unfolding sample_extract_all
    by (simp add: result_section_def sample_record_def json_get_def)
  have c: "map_of (result_dict (asc ''HEAHEA'') (extract_all latin1_runtime sample_document))
     (asc ''TraModAtBorHEA76'') \<noteq> Some JNull"
    unfolding sample_extract_all result_of_run sample_sections
    by (simp add: asc_def)
  show ?thesis
    using a b c sample_unmatched(1) mass_unmatched_examples(1)
    by (simp only: sample_offset) simp
qed

end
